theory Spec2Isabelle
  imports Complex_Main "HOL-Library.Word"
begin

unbundle bit_operations_syntax

section \<open>Machine integers, registers and lanes\<close>

text \<open>
  The kernels of \<^verbatim>\<open>iqk_mul_mat.cpp\<close> work on AVX2 registers. A register is modelled
  as the list of its bytes, lowest byte first: an \<^verbatim>\<open>__m128i\<close> has 16 bytes, an
  \<^verbatim>\<open>__m256i\<close> has 32. An intrinsic that works on 16-bit or 32-bit lanes reads the
  lanes out of the bytes (little endian) and writes its result lanes back as bytes, so
  the reinterpretations the source performs between byte, 16-bit and 32-bit views are
  all explicit. Signed quantities (\<^verbatim>\<open>int8_t\<close>, \<^verbatim>\<open>int16_t\<close>) are stored as words and
  read with \<open>sint\<close>.
\<close>

type_synonym u8 = "8 word"
type_synonym u16 = "16 word"
type_synonym u32 = "32 word"
type_synonym m128i = "u8 list"
type_synonym m256i = "u8 list"

definition vec :: "nat \<Rightarrow> (nat \<Rightarrow> 'a) \<Rightarrow> 'a list" where
  "vec n f = map f [0..<n]"

definition le16 :: "u8 \<Rightarrow> u8 \<Rightarrow> u16" where
  "le16 b0 b1 = ucast b0 OR push_bit 8 (ucast b1)"

definition le32 :: "u8 \<Rightarrow> u8 \<Rightarrow> u8 \<Rightarrow> u8 \<Rightarrow> u32" where
  "le32 b0 b1 b2 b3 =
     ucast b0 OR push_bit 8 (ucast b1) OR push_bit 16 (ucast b2) OR push_bit 24 (ucast b3)"

text \<open>Lane \<open>k\<close> of a register, read as a 16-bit or a 32-bit value.\<close>

definition w16 :: "u8 list \<Rightarrow> nat \<Rightarrow> u16" where
  "w16 v k = le16 (v ! (2 * k)) (v ! (2 * k + 1))"

definition w32 :: "u8 list \<Rightarrow> nat \<Rightarrow> u32" where
  "w32 v k = le32 (v ! (4 * k)) (v ! (4 * k + 1)) (v ! (4 * k + 2)) (v ! (4 * k + 3))"

text \<open>A register built from \<open>n\<close> 16-bit (32-bit) lanes.\<close>

definition of_epi16 :: "nat \<Rightarrow> (nat \<Rightarrow> u16) \<Rightarrow> u8 list" where
  "of_epi16 n f = vec (2 * n) (\<lambda>i. ucast (drop_bit (8 * (i mod 2)) (f (i div 2))))"

definition of_epi32 :: "nat \<Rightarrow> (nat \<Rightarrow> u32) \<Rightarrow> u8 list" where
  "of_epi32 n f = vec (4 * n) (\<lambda>i. ucast (drop_bit (8 * (i mod 4)) (f (i div 4))))"

text \<open>Signed saturation to 16 bits, as \<^verbatim>\<open>pmaddubsw\<close> applies it to each pair sum.\<close>

definition sat16 :: "int \<Rightarrow> u16" where
  "sat16 x = word_of_int (max (- 32768) (min 32767 x))"

subsection \<open>Integer intrinsics\<close>

definition mm_set1_epi8 :: "u8 \<Rightarrow> m128i" where
  "mm_set1_epi8 c = vec 16 (\<lambda>i. c)"

definition mm256_set1_epi8 :: "u8 \<Rightarrow> m256i" where
  "mm256_set1_epi8 c = vec 32 (\<lambda>i. c)"

definition mm_set1_epi16 :: "u16 \<Rightarrow> m128i" where
  "mm_set1_epi16 c = of_epi16 8 (\<lambda>k. c)"

definition mm256_set1_epi16 :: "u16 \<Rightarrow> m256i" where
  "mm256_set1_epi16 c = of_epi16 16 (\<lambda>k. c)"

definition mm_set1_epi32 :: "u32 \<Rightarrow> m128i" where
  "mm_set1_epi32 c = of_epi32 4 (\<lambda>k. c)"

text \<open>\<^verbatim>\<open>_mm_set_epi32(e3, e2, e1, e0)\<close>: \<open>e0\<close> is the lowest lane.\<close>

definition mm_set_epi32 :: "u32 \<Rightarrow> u32 \<Rightarrow> u32 \<Rightarrow> u32 \<Rightarrow> m128i" where
  "mm_set_epi32 e3 e2 e1 e0 = of_epi32 4 (\<lambda>k. [e0, e1, e2, e3] ! k)"

definition mm256_setzero_si256 :: m256i where
  "mm256_setzero_si256 = vec 32 (\<lambda>i. 0)"

text \<open>Unaligned loads of 16 and 32 bytes from a byte array at a byte offset.\<close>

definition mm_loadu_si128 :: "u8 list \<Rightarrow> nat \<Rightarrow> m128i" where
  "mm_loadu_si128 p off = vec 16 (\<lambda>i. p ! (off + i))"

definition mm256_loadu_si256 :: "u8 list \<Rightarrow> nat \<Rightarrow> m256i" where
  "mm256_loadu_si256 p off = vec 32 (\<lambda>i. p ! (off + i))"

definition mm_and_si128 :: "m128i \<Rightarrow> m128i \<Rightarrow> m128i" where
  "mm_and_si128 a b = vec 16 (\<lambda>i. a ! i AND b ! i)"

definition mm256_and_si256 :: "m256i \<Rightarrow> m256i \<Rightarrow> m256i" where
  "mm256_and_si256 a b = vec 32 (\<lambda>i. a ! i AND b ! i)"

definition mm_or_si128 :: "m128i \<Rightarrow> m128i \<Rightarrow> m128i" where
  "mm_or_si128 a b = vec 16 (\<lambda>i. a ! i OR b ! i)"

definition mm256_or_si256 :: "m256i \<Rightarrow> m256i \<Rightarrow> m256i" where
  "mm256_or_si256 a b = vec 32 (\<lambda>i. a ! i OR b ! i)"

definition mm_srli_epi16 :: "m128i \<Rightarrow> nat \<Rightarrow> m128i" where
  "mm_srli_epi16 a c = of_epi16 8 (\<lambda>k. drop_bit c (w16 a k))"

definition mm256_srli_epi16 :: "m256i \<Rightarrow> nat \<Rightarrow> m256i" where
  "mm256_srli_epi16 a c = of_epi16 16 (\<lambda>k. drop_bit c (w16 a k))"

definition mm_slli_epi16 :: "m128i \<Rightarrow> nat \<Rightarrow> m128i" where
  "mm_slli_epi16 a c = of_epi16 8 (\<lambda>k. push_bit c (w16 a k))"

definition mm256_slli_epi16 :: "m256i \<Rightarrow> nat \<Rightarrow> m256i" where
  "mm256_slli_epi16 a c = of_epi16 16 (\<lambda>k. push_bit c (w16 a k))"

text \<open>\<^verbatim>\<open>_mm_srlv_epi32\<close>: each 32-bit lane shifted right by the count in the same lane
  of the second operand; a count of 32 or more gives 0.\<close>

definition mm_srlv_epi32 :: "m128i \<Rightarrow> m128i \<Rightarrow> m128i" where
  "mm_srlv_epi32 a cnt = of_epi32 4 (\<lambda>k. drop_bit (unat (w32 cnt k)) (w32 a k))"

definition mm_sub_epi8 :: "m128i \<Rightarrow> m128i \<Rightarrow> m128i" where
  "mm_sub_epi8 a b = vec 16 (\<lambda>i. a ! i - b ! i)"

definition mm256_add_epi8 :: "m256i \<Rightarrow> m256i \<Rightarrow> m256i" where
  "mm256_add_epi8 a b = vec 32 (\<lambda>i. a ! i + b ! i)"

definition mm_add_epi16 :: "m128i \<Rightarrow> m128i \<Rightarrow> m128i" where
  "mm_add_epi16 a b = of_epi16 8 (\<lambda>k. w16 a k + w16 b k)"

definition mm256_add_epi32 :: "m256i \<Rightarrow> m256i \<Rightarrow> m256i" where
  "mm256_add_epi32 a b = of_epi32 8 (\<lambda>k. w32 a k + w32 b k)"

text \<open>\<^verbatim>\<open>_mm_hadd_epi16(a, b)\<close>: the four adjacent-pair sums of \<open>a\<close>, then those of \<open>b\<close>;
  the sums wrap around.\<close>

definition mm_hadd_epi16 :: "m128i \<Rightarrow> m128i \<Rightarrow> m128i" where
  "mm_hadd_epi16 a b = of_epi16 8 (\<lambda>k.
     if k < 4 then w16 a (2 * k) + w16 a (2 * k + 1)
     else w16 b (2 * (k - 4)) + w16 b (2 * (k - 4) + 1))"

text \<open>Sign and zero extension of bytes to 16-bit lanes. The 128-bit form reads the low
  8 bytes of its operand, the 256-bit form all 16.\<close>

definition mm_cvtepi8_epi16 :: "m128i \<Rightarrow> m128i" where
  "mm_cvtepi8_epi16 a = of_epi16 8 (\<lambda>k. scast (a ! k))"

definition mm256_cvtepi8_epi16 :: "m128i \<Rightarrow> m256i" where
  "mm256_cvtepi8_epi16 a = of_epi16 16 (\<lambda>k. scast (a ! k))"

definition mm256_cvtepu8_epi16 :: "m128i \<Rightarrow> m256i" where
  "mm256_cvtepu8_epi16 a = of_epi16 16 (\<lambda>k. ucast (a ! k))"

text \<open>\<^verbatim>\<open>_mm256_extracti128_si256\<close>, \<^verbatim>\<open>_mm256_castsi256_si128\<close> (half 0) and the macro
  \<^verbatim>\<open>MM256_SET_M128I(a, b)\<close>, whose second argument is the low half.\<close>

definition mm256_extracti128_si256 :: "m256i \<Rightarrow> nat \<Rightarrow> m128i" where
  "mm256_extracti128_si256 a h = vec 16 (\<lambda>i. a ! (16 * h + i))"

definition MM256_SET_M128I :: "m128i \<Rightarrow> m128i \<Rightarrow> m256i" where
  "MM256_SET_M128I a b = vec 32 (\<lambda>i. if i < 16 then b ! i else a ! (i - 16))"

text \<open>Byte shuffles: a control byte with its top bit set gives 0, otherwise its low four
  bits select a byte; the 256-bit form selects within each 128-bit half.\<close>

definition mm_shuffle_epi8 :: "m128i \<Rightarrow> m128i \<Rightarrow> m128i" where
  "mm_shuffle_epi8 a b = vec 16 (\<lambda>i.
     if bit (b ! i) 7 then 0 else a ! unat (b ! i AND 15))"

definition mm256_shuffle_epi8 :: "m256i \<Rightarrow> m256i \<Rightarrow> m256i" where
  "mm256_shuffle_epi8 a b = vec 32 (\<lambda>i.
     if bit (b ! i) 7 then 0 else a ! (16 * (i div 16) + unat (b ! i AND 15)))"

text \<open>\<^verbatim>\<open>_mm256_sign_epi8(a, b)\<close>: each byte of \<open>a\<close> negated (wrapping), zeroed or kept
  as the same byte of \<open>b\<close> is negative, zero or positive.\<close>

definition mm256_sign_epi8 :: "m256i \<Rightarrow> m256i \<Rightarrow> m256i" where
  "mm256_sign_epi8 a b = vec 32 (\<lambda>i.
     if sint (b ! i) < 0 then - (a ! i) else if b ! i = 0 then 0 else a ! i)"

text \<open>\<^verbatim>\<open>_mm256_maddubs_epi16(a, b)\<close>: unsigned bytes of \<open>a\<close> times signed bytes of \<open>b\<close>,
  adjacent products added with signed saturation to 16 bits.\<close>

definition mm256_maddubs_epi16 :: "m256i \<Rightarrow> m256i \<Rightarrow> m256i" where
  "mm256_maddubs_epi16 a b = of_epi16 16 (\<lambda>k.
     sat16 (uint (a ! (2 * k)) * sint (b ! (2 * k))
          + uint (a ! (2 * k + 1)) * sint (b ! (2 * k + 1))))"

text \<open>\<^verbatim>\<open>_mm256_madd_epi16(a, b)\<close>: signed 16-bit lanes multiplied to 32 bits, adjacent
  products added in 32 bits (wrapping).\<close>

definition mm_madd_epi16 :: "m128i \<Rightarrow> m128i \<Rightarrow> m128i" where
  "mm_madd_epi16 a b = of_epi32 4 (\<lambda>k.
     word_of_int (sint (w16 a (2 * k)) * sint (w16 b (2 * k))
                + sint (w16 a (2 * k + 1)) * sint (w16 b (2 * k + 1))))"

definition mm256_madd_epi16 :: "m256i \<Rightarrow> m256i \<Rightarrow> m256i" where
  "mm256_madd_epi16 a b = of_epi32 8 (\<lambda>k.
     word_of_int (sint (w16 a (2 * k)) * sint (w16 b (2 * k))
                + sint (w16 a (2 * k + 1)) * sint (w16 b (2 * k + 1))))"

subsection \<open>Floating point\<close>

text \<open>
  The source computes in IEEE binary32. The model does not fix a floating-point
  semantics: every kernel takes the arithmetic as a parameter, a record of the
  operations on a carrier \<open>'f\<close>. Properties of the control flow, of the integer path and
  of data dependence are proved for every such arithmetic. Properties that are
  identities of real numbers are proved for \<open>exact_ops\<close>, where the carrier is \<open>real\<close>
  and no operation rounds; the conversion of a half-precision scale
  (\<^verbatim>\<open>GGML_FP16_TO_FP32\<close>, a macro of \<^verbatim>\<open>ggml-impl.h\<close>) stays a parameter there.
\<close>

record 'f fops =
  f_zero :: 'f
  f_add :: "'f \<Rightarrow> 'f \<Rightarrow> 'f"
  f_sub :: "'f \<Rightarrow> 'f \<Rightarrow> 'f"
  f_mul :: "'f \<Rightarrow> 'f \<Rightarrow> 'f"
  f_neg :: "'f \<Rightarrow> 'f"
  f_fmadd :: "'f \<Rightarrow> 'f \<Rightarrow> 'f \<Rightarrow> 'f"
  f_of_int32 :: "int \<Rightarrow> 'f"
  f_of_fp16 :: "u16 \<Rightarrow> 'f"
  f_lit :: "real \<Rightarrow> 'f"

definition exact_ops :: "(u16 \<Rightarrow> real) \<Rightarrow> real fops" where
  "exact_ops h = \<lparr> f_zero = 0, f_add = (\<lambda>a b. a + b), f_sub = (\<lambda>a b. a - b),
     f_mul = (\<lambda>a b. a * b), f_neg = (\<lambda>a. - a), f_fmadd = (\<lambda>a b c. a * b + c),
     f_of_int32 = of_int, f_of_fp16 = h, f_lit = (\<lambda>r. r) \<rparr>"

definition mm_setzero_ps :: "'f fops \<Rightarrow> 'f list" where
  "mm_setzero_ps ops = vec 4 (\<lambda>i. f_zero ops)"

definition mm256_setzero_ps :: "'f fops \<Rightarrow> 'f list" where
  "mm256_setzero_ps ops = vec 8 (\<lambda>i. f_zero ops)"

definition mm_set1_ps :: "'f \<Rightarrow> 'f list" where
  "mm_set1_ps x = vec 4 (\<lambda>i. x)"

definition mm256_set1_ps :: "'f \<Rightarrow> 'f list" where
  "mm256_set1_ps x = vec 8 (\<lambda>i. x)"

definition mm_cvtepi32_ps :: "'f fops \<Rightarrow> m128i \<Rightarrow> 'f list" where
  "mm_cvtepi32_ps ops a = vec 4 (\<lambda>k. f_of_int32 ops (sint (w32 a k)))"

definition mm256_cvtepi32_ps :: "'f fops \<Rightarrow> m256i \<Rightarrow> 'f list" where
  "mm256_cvtepi32_ps ops a = vec 8 (\<lambda>k. f_of_int32 ops (sint (w32 a k)))"

definition mm_fmadd_ps :: "'f fops \<Rightarrow> 'f list \<Rightarrow> 'f list \<Rightarrow> 'f list \<Rightarrow> 'f list" where
  "mm_fmadd_ps ops a b c = vec 4 (\<lambda>k. f_fmadd ops (a ! k) (b ! k) (c ! k))"

definition mm256_fmadd_ps :: "'f fops \<Rightarrow> 'f list \<Rightarrow> 'f list \<Rightarrow> 'f list \<Rightarrow> 'f list" where
  "mm256_fmadd_ps ops a b c = vec 8 (\<lambda>k. f_fmadd ops (a ! k) (b ! k) (c ! k))"

definition mm_add_ps :: "'f fops \<Rightarrow> 'f list \<Rightarrow> 'f list \<Rightarrow> 'f list" where
  "mm_add_ps ops a b = vec 4 (\<lambda>k. f_add ops (a ! k) (b ! k))"

definition mm256_castps256_ps128 :: "'f list \<Rightarrow> 'f list" where
  "mm256_castps256_ps128 a = vec 4 (\<lambda>k. a ! k)"

definition mm256_extractf128_ps :: "'f list \<Rightarrow> nat \<Rightarrow> 'f list" where
  "mm256_extractf128_ps a h = vec 4 (\<lambda>k. a ! (4 * h + k))"

text \<open>\<^verbatim>\<open>hsum_float_4\<close>: \<^verbatim>\<open>movehl\<close> adds lanes 2 and 3 onto lanes 0 and 1, then
  \<^verbatim>\<open>movehdup\<close> and \<^verbatim>\<open>add_ss\<close> add lane 1 onto lane 0.\<close>

definition hsum_float_4 :: "'f fops \<Rightarrow> 'f list \<Rightarrow> 'f" where
  "hsum_float_4 ops x =
     (let x1 = mm_add_ps ops x [x ! 2, x ! 3, x ! 2, x ! 3]
      in f_add ops (x1 ! 0) (x1 ! 1))"

definition hsum_float_8 :: "'f fops \<Rightarrow> 'f list \<Rightarrow> 'f" where
  "hsum_float_8 ops x =
     hsum_float_4 ops (mm_add_ps ops (mm256_castps256_ps128 x) (mm256_extractf128_ps x 1))"


section \<open>Quantized blocks\<close>

text \<open>
  The block structs are declared in \<^verbatim>\<open>ggml-quants.h\<close>, which is not part of the
  sources at hand; the records below carry the fields the kernels read, with the array
  sizes of the data model: \<^verbatim>\<open>QK_K = 256\<close> values per super-block. A half-precision
  field is kept as its 16 raw bits.
\<close>

definition QK_K :: int where
  "QK_K = 256"

record block_q2_K =
  q2_scales :: "u8 list"
  q2_qs :: "u8 list"
  q2_d :: u16
  q2_dmin :: u16

record block_q3_K =
  q3_hmask :: "u8 list"
  q3_qs :: "u8 list"
  q3_scales :: "u8 list"
  q3_d :: u16

record block_q4_K =
  q4_d :: u16
  q4_dmin :: u16
  q4_scales :: "u8 list"
  q4_qs :: "u8 list"

record block_q5_K =
  q5_d :: u16
  q5_dmin :: u16
  q5_scales :: "u8 list"
  q5_qh :: "u8 list"
  q5_qs :: "u8 list"

record block_q6_K =
  q6_ql :: "u8 list"
  q6_qh :: "u8 list"
  q6_scales :: "u8 list"
  q6_d :: u16

record block_iq4_xs =
  iq4_d :: u16
  iq4_scales_h :: u16
  iq4_scales_l :: "u8 list"
  iq4_qs :: "u8 list"

record 'f block_q8_K =
  q8_d :: 'f
  q8_qs :: "u8 list"
  q8_bsums :: "u16 list"

text \<open>Well-formed blocks: every array has the size its struct declares.\<close>

definition wf_q2 :: "block_q2_K \<Rightarrow> bool" where
  "wf_q2 x = (length (q2_scales x) = 16 \<and> length (q2_qs x) = 64)"

definition wf_q3 :: "block_q3_K \<Rightarrow> bool" where
  "wf_q3 x = (length (q3_hmask x) = 32 \<and> length (q3_qs x) = 64 \<and> length (q3_scales x) = 12)"

definition wf_q4 :: "block_q4_K \<Rightarrow> bool" where
  "wf_q4 x = (length (q4_scales x) = 12 \<and> length (q4_qs x) = 128)"

definition wf_q5 :: "block_q5_K \<Rightarrow> bool" where
  "wf_q5 x = (length (q5_scales x) = 12 \<and> length (q5_qh x) = 32 \<and> length (q5_qs x) = 128)"

definition wf_q6 :: "block_q6_K \<Rightarrow> bool" where
  "wf_q6 x = (length (q6_ql x) = 128 \<and> length (q6_qh x) = 64 \<and> length (q6_scales x) = 16)"

definition wf_iq4 :: "block_iq4_xs \<Rightarrow> bool" where
  "wf_iq4 x = (length (iq4_scales_l x) = 4 \<and> length (iq4_qs x) = 128)"

definition wf_q8 :: "'f block_q8_K \<Rightarrow> bool" where
  "wf_q8 y = (length (q8_qs y) = 256 \<and> length (q8_bsums y) = 16)"

section \<open>Memory and control\<close>

text \<open>
  Operands are addressed as the source addresses them: by byte offsets. A typed heap
  maps the byte address at which a row starts to the super-blocks of that row;
  the output \<^verbatim>\<open>C\<close> is a store from element index to value. Pointer arithmetic is
  done on mathematical integers, that is, without the wrap-around of \<^verbatim>\<open>size_t\<close>, and
  so is the arithmetic on \<^verbatim>\<open>long\<close> values, whose overflow is undefined in the source.
  An \<^verbatim>\<open>assert\<close> that fails ends the call with \<open>AssertionFailed\<close>.
\<close>

datatype error = AssertionFailed | DivisionByZero

type_synonym 'b heap = "int \<Rightarrow> 'b list"
type_synonym 'f store = "int \<Rightarrow> 'f"

text \<open>\<^verbatim>\<open>for (int i = 0; i < n; ++i) body\<close> on the state the body updates.\<close>

definition for_loop :: "nat \<Rightarrow> (nat \<Rightarrow> 's \<Rightarrow> 's) \<Rightarrow> 's \<Rightarrow> 's" where
  "for_loop n body s = fold body [0..<n] s"

text \<open>C's integer division, which truncates towards zero.\<close>

definition c_div :: "int \<Rightarrow> int \<Rightarrow> int" where
  "c_div a b = sgn a * sgn b * (\<bar>a\<bar> div \<bar>b\<bar>)"

text \<open>The conversion of a wider integer (\<^verbatim>\<open>long\<close>, \<^verbatim>\<open>size_t\<close>) to \<^verbatim>\<open>int\<close>, as it happens
  where such a value is passed for an \<^verbatim>\<open>int\<close> parameter: the low 32 bits, read as a
  signed number.\<close>

definition to_int :: "int \<Rightarrow> int" where
  "to_int v = sint (word_of_int v :: 32 word)"

subsection \<open>The helper struct \<^verbatim>\<open>Q8\<close>\<close>

text \<open>\<^verbatim>\<open>Q8<nrc_y>\<close> holds the row pointers \<^verbatim>\<open>y[iy] = vy + iy*by\<close>. (Its constructor takes
  the row stride as an \<^verbatim>\<open>int\<close>; row strides are taken to be below \<open>2\<^sup>3\<^sup>1\<close> bytes.)\<close>

definition Q8 :: "'f block_q8_K heap \<Rightarrow> int \<Rightarrow> int \<Rightarrow> nat \<Rightarrow> 'f block_q8_K list" where
  "Q8 B vy by iy = B (vy + int iy * by)"

definition load_quants :: "(nat \<Rightarrow> 'f block_q8_K list) \<Rightarrow> nat \<Rightarrow> nat \<Rightarrow> nat \<Rightarrow> m256i" where
  "load_quants q8 iy i j = mm256_loadu_si256 (q8_qs (q8 iy ! i)) (32 * j)"

definition load_bsums :: "(nat \<Rightarrow> 'f block_q8_K list) \<Rightarrow> nat \<Rightarrow> nat \<Rightarrow> m256i" where
  "load_bsums q8 iy i = of_epi16 16 (\<lambda>k. q8_bsums (q8 iy ! i) ! k)"

definition q8_scale :: "(nat \<Rightarrow> 'f block_q8_K list) \<Rightarrow> nat \<Rightarrow> nat \<Rightarrow> 'f" where
  "q8_scale q8 iy i = q8_d (q8 iy ! i)"

subsection \<open>Scale unpacking and shuffle tables\<close>

text \<open>The \<open>k\<close>-th \<^verbatim>\<open>uint16_t\<close> of a byte array, and the 32-bit word the source builds as
  \<^verbatim>\<open>p[k] | (p[k+1] << 16)\<close>.\<close>

definition u16_at :: "u8 list \<Rightarrow> nat \<Rightarrow> u16" where
  "u16_at p k = le16 (p ! (2 * k)) (p ! (2 * k + 1))"

definition u32_of_u16s :: "u8 list \<Rightarrow> nat \<Rightarrow> u32" where
  "u32_of_u16s p k = ucast (u16_at p k) OR push_bit 16 (ucast (u16_at p (k + 1)))"

text \<open>\<^verbatim>\<open>make_q4_scales\<close>: the result is the array \<^verbatim>\<open>aux32[0..3]\<close>.\<close>

definition make_q4_scales :: "u8 list \<Rightarrow> u32 list" where
  "make_q4_scales scales8 =
     (let a0 = u32_of_u16s scales8 0;
          a1 = u32_of_u16s scales8 2;
          a2 = u32_of_u16s scales8 4;
          aux3 = (drop_bit 4 a2 AND 0x0f0f0f0f) OR (drop_bit 2 a1 AND 0x30303030);
          aux1 = (drop_bit 0 a2 AND 0x0f0f0f0f) OR (drop_bit 2 a0 AND 0x30303030);
          aux2 = a1 AND 0x3f3f3f3f;
          aux0 = a0 AND 0x3f3f3f3f
      in [aux0, aux1, aux2, aux3])"

definition get_scale_shuffle_8 :: "nat \<Rightarrow> m256i" where
  "get_scale_shuffle_8 i = mm256_set1_epi16 (of_nat (2 * i) OR push_bit 8 (of_nat (2 * i + 1)))"

definition k_shuffle :: "u8 list" where
  "k_shuffle =
    [ 0, 1, 0, 1, 0, 1, 0, 1, 0, 1, 0, 1, 0, 1, 0, 1,     2, 3, 2, 3, 2, 3, 2, 3, 2, 3, 2, 3, 2, 3, 2, 3,
      4, 5, 4, 5, 4, 5, 4, 5, 4, 5, 4, 5, 4, 5, 4, 5,     6, 7, 6, 7, 6, 7, 6, 7, 6, 7, 6, 7, 6, 7, 6, 7,
      8, 9, 8, 9, 8, 9, 8, 9, 8, 9, 8, 9, 8, 9, 8, 9,    10,11,10,11,10,11,10,11,10,11,10,11,10,11,10,11,
     12,13,12,13,12,13,12,13,12,13,12,13,12,13,12,13,    14,15,14,15,14,15,14,15,14,15,14,15,14,15,14,15]"

definition get_scale_shuffle_16 :: "nat \<Rightarrow> m256i" where
  "get_scale_shuffle_16 i = mm256_loadu_si256 k_shuffle (32 * i)"


definition c_rem :: "int \<Rightarrow> int \<Rightarrow> int" where
  "c_rem a b = a - b * c_div a b"

definition mm256_castsi256_si128 :: "m256i \<Rightarrow> m128i" where
  "mm256_castsi256_si128 a = vec 16 (\<lambda>i. a ! i)"

definition mm256_extractf128_si256 :: "m256i \<Rightarrow> nat \<Rightarrow> m128i" where
  "mm256_extractf128_si256 a h = vec 16 (\<lambda>i. a ! (16 * h + i))"

section \<open>The micro-kernels\<close>

text \<open>
  Each kernel \<^verbatim>\<open>mul_mat_<fmt>_q8_K_T<nrc_y>\<close> is given in steps that follow its text: the
  registers with the unpacked scales, the registers with the unpacked quants, the integer
  accumulators \<^verbatim>\<open>sumi\<close> after the loop over \<open>j\<close>, the body of the loop over super-blocks,
  and the row loop with the final stores. The template parameter \<open>nrc_y\<close> is a \<open>nat\<close>
  argument. Arrays indexed by the column \<open>iy\<close> (\<^verbatim>\<open>sumi\<close>, \<^verbatim>\<open>accd\<close>, \<^verbatim>\<open>accm\<close>) are lists
  updated in place by the loops over \<open>iy\<close>; \<^verbatim>\<open>vd[iy]\<close>, which the source assigns before
  every use, is the vector of its values. Pointers that the source advances
  (\<^verbatim>\<open>q4 += 32\<close>) are the offsets they have reached.
\<close>

subsection \<open>Q2_K\<close>

text \<open>\<^verbatim>\<open>mins_and_scales\<close>, and from it the register \<^verbatim>\<open>mins\<close> and the array \<^verbatim>\<open>scales[2]\<close>.\<close>

definition q2_K_mins :: "block_q2_K \<Rightarrow> m256i" where
  "q2_K_mins x =
    (let m4 = mm_set1_epi8 0xF;
         mins_and_scales = mm_loadu_si128 (q2_scales x) 0;
         mins8 = mm_and_si128 (mm_srli_epi16 mins_and_scales 4) m4
     in mm256_cvtepi8_epi16 mins8)"

definition q2_K_scales :: "block_q2_K \<Rightarrow> m256i list" where
  "q2_K_scales x =
    (let m4 = mm_set1_epi8 0xF;
         mins_and_scales = mm_loadu_si128 (q2_scales x) 0;
         scales8 = mm_and_si128 mins_and_scales m4;
         all_scales = mm256_cvtepi8_epi16 scales8;
         l_scales = mm256_extracti128_si256 all_scales 0;
         h_scales = mm256_extracti128_si256 all_scales 1
     in [MM256_SET_M128I l_scales l_scales, MM256_SET_M128I h_scales h_scales])"

text \<open>The pair \<^verbatim>\<open>q2_0\<close>, \<^verbatim>\<open>q2_1\<close> taken from the current \<^verbatim>\<open>q2bits\<close>.\<close>

definition q2_K_quants :: "nat \<Rightarrow> m256i \<Rightarrow> m256i list" where
  "q2_K_quants nrc_y q2bits =
    (let m3 = mm256_set1_epi8 3;
         mc = mm256_set1_epi8 12;
         q2_0 = mm256_and_si256 q2bits m3;
         q2_1 = (if nrc_y \<le> 2 then mm256_and_si256 q2bits mc
                 else mm256_and_si256 (mm256_srli_epi16 q2bits 2) m3)
     in [q2_0, q2_1])"

definition q2_K_sumi :: "nat \<Rightarrow> block_q2_K \<Rightarrow> (nat \<Rightarrow> 'f block_q8_K list) \<Rightarrow> nat \<Rightarrow> m256i list" where
  "q2_K_sumi nrc_y x q8 i =
    (let k_nrc = (if nrc_y \<le> 2 then 2 * nrc_y else nrc_y);
         scales = q2_K_scales x
     in for_loop 2 (\<lambda>j sumi.
          snd (for_loop 2 (\<lambda>l (q2bits, sumi).
            let scales_0 = mm256_shuffle_epi8 (scales ! j) (get_scale_shuffle_16 (2 * l));
                scales_1 = mm256_shuffle_epi8 (scales ! j) (get_scale_shuffle_16 (2 * l + 1));
                q2 = q2_K_quants nrc_y q2bits;
                sumi' = for_loop nrc_y (\<lambda>iy sumi.
                  let p0 = mm256_maddubs_epi16 (q2 ! 0) (load_quants q8 iy i (4 * j + 2 * l));
                      p1 = mm256_maddubs_epi16 (q2 ! 1) (load_quants q8 iy i (4 * j + 2 * l + 1))
                  in if nrc_y \<le> 2
                     then (sumi[2 * iy := mm256_add_epi32 (sumi ! (2 * iy)) (mm256_madd_epi16 scales_0 p0)])
                            [2 * iy + 1 := mm256_add_epi32 (sumi ! (2 * iy + 1)) (mm256_madd_epi16 scales_1 p1)]
                     else sumi[iy := mm256_add_epi32 (sumi ! iy)
                            (mm256_add_epi32 (mm256_madd_epi16 scales_0 p0) (mm256_madd_epi16 scales_1 p1))]) sumi
            in (mm256_srli_epi16 q2bits 4, sumi'))
            (mm256_loadu_si256 (q2_qs x) (32 * j), sumi)))
          (replicate k_nrc mm256_setzero_si256))"

definition q2_K_superblock ::
  "'f fops \<Rightarrow> nat \<Rightarrow> block_q2_K \<Rightarrow> (nat \<Rightarrow> 'f block_q8_K list) \<Rightarrow> nat \<Rightarrow> 'f list list \<Rightarrow> 'f list list" where
  "q2_K_superblock ops nrc_y x q8 i accd0 =
    (let d2 = f_of_fp16 ops (q2_d x);
         c2 = f_neg ops (f_of_fp16 ops (q2_dmin x));
         mins = q2_K_mins x;
         accd1 = for_loop nrc_y (\<lambda>iy accd.
           let prod = mm256_madd_epi16 mins (load_bsums q8 iy i);
               cd = mm256_set1_ps (f_mul ops c2 (q8_scale q8 iy i))
           in if nrc_y \<le> 2
              then accd[2 * iy := mm256_fmadd_ps ops cd (mm256_cvtepi32_ps ops prod) (accd ! (2 * iy))]
              else accd[iy := mm256_fmadd_ps ops cd (mm256_cvtepi32_ps ops prod) (accd ! iy)]) accd0;
         sumi = q2_K_sumi nrc_y x q8 i
     in for_loop nrc_y (\<lambda>iy accd.
          let vd = mm256_set1_ps (f_mul ops d2 (q8_scale q8 iy i))
          in if nrc_y \<le> 2
             then (accd[2 * iy := mm256_fmadd_ps ops vd (mm256_cvtepi32_ps ops (sumi ! (2 * iy))) (accd ! (2 * iy))])
                    [2 * iy + 1 := mm256_fmadd_ps ops vd (mm256_cvtepi32_ps ops (sumi ! (2 * iy + 1))) (accd ! (2 * iy + 1))]
             else accd[iy := mm256_fmadd_ps ops vd (mm256_cvtepi32_ps ops (sumi ! iy)) (accd ! iy)]) accd1)"

definition mul_mat_q2_K_q8_K_T ::
  "'f fops \<Rightarrow> nat \<Rightarrow> block_q2_K heap \<Rightarrow> 'f block_q8_K heap \<Rightarrow>
   int \<Rightarrow> int \<Rightarrow> int \<Rightarrow> int \<Rightarrow> int \<Rightarrow> int \<Rightarrow> int \<Rightarrow> int \<Rightarrow> 'f store \<Rightarrow> error + 'f store" where
  "mul_mat_q2_K_q8_K_T ops nrc_y A B n s bs vx bx vy by nrc_x C0 =
    (if c_rem n QK_K \<noteq> 0 then Inl AssertionFailed
     else
       let nb = nat (c_div n QK_K);
           k_nrc = (if nrc_y \<le> 2 then 2 * nrc_y else nrc_y);
           q8 = Q8 B vy by
       in Inr (for_loop (nat nrc_x) (\<lambda>ix C.
            let x = A (vx + int ix * bx);
                accd = for_loop nb (\<lambda>i accd. q2_K_superblock ops nrc_y (x ! i) q8 i accd)
                         (replicate k_nrc (mm256_setzero_ps ops))
            in for_loop nrc_y (\<lambda>iy C.
                 if nrc_y \<le> 2
                 then C(s + int ix + int iy * bs :=
                        f_add ops (hsum_float_8 ops (accd ! (2 * iy)))
                          (f_mul ops (f_lit ops 0.25) (hsum_float_8 ops (accd ! (2 * iy + 1)))))
                 else C(s + int ix + int iy * bs := hsum_float_8 ops (accd ! iy))) C) C0))"

subsection \<open>Q3_K\<close>

definition q3_K_scales128 :: "block_q3_K \<Rightarrow> m128i" where
  "q3_K_scales128 x =
    (let aux0 = u32_of_u16s (q3_scales x) 0;
         aux1 = u32_of_u16s (q3_scales x) 2;
         aux2 = u32_of_u16s (q3_scales x) 4;
         scales128 = mm_set_epi32
           ((drop_bit 4 aux1 AND 0x0f0f0f0f) OR (drop_bit 2 aux2 AND 0x30303030))
           ((drop_bit 4 aux0 AND 0x0f0f0f0f) OR (drop_bit 0 aux2 AND 0x30303030))
           ((aux1 AND 0x0f0f0f0f) OR (push_bit 2 aux2 AND 0x30303030))
           ((aux0 AND 0x0f0f0f0f) OR (push_bit 4 aux2 AND 0x30303030))
     in mm_sub_epi8 scales128 (mm_set1_epi8 32))"

definition q3_K_all_scales :: "block_q3_K \<Rightarrow> m256i" where
  "q3_K_all_scales x = mm256_cvtepi8_epi16 (q3_K_scales128 x)"

definition q3_K_scales :: "block_q3_K \<Rightarrow> m256i list" where
  "q3_K_scales x =
    (let all_scales = q3_K_all_scales x;
         l_scales = mm256_extracti128_si256 all_scales 0;
         h_scales = mm256_extracti128_si256 all_scales 1
     in [MM256_SET_M128I l_scales l_scales, MM256_SET_M128I h_scales h_scales])"

text \<open>The registers \<^verbatim>\<open>q3_0 .. q3_3\<close> of iteration \<open>j\<close>.\<close>

definition q3_K_quants :: "block_q3_K \<Rightarrow> nat \<Rightarrow> m256i list" where
  "q3_K_quants x j =
    (let m3l = mm256_set1_epi8 0x03;
         hml = mm256_set1_epi8 0x04;
         hbits0 = mm256_loadu_si256 (q3_hmask x) 0;
         hbits = [hbits0, mm256_srli_epi16 hbits0 4];
         q3bits = mm256_loadu_si256 (q3_qs x) (32 * j);
         q3h_0 = mm256_and_si256 (mm256_slli_epi16 (hbits ! j) 2) hml;
         q3h_1 = mm256_and_si256 (mm256_slli_epi16 (hbits ! j) 1) hml;
         q3h_2 = mm256_and_si256 (hbits ! j) hml;
         q3h_3 = mm256_and_si256 (mm256_srli_epi16 (hbits ! j) 1) hml;
         q3_0 = mm256_or_si256 (mm256_and_si256 q3bits m3l) q3h_0;
         q3_1 = mm256_or_si256 (mm256_and_si256 (mm256_srli_epi16 q3bits 2) m3l) q3h_1;
         q3_2 = mm256_or_si256 (mm256_and_si256 (mm256_srli_epi16 q3bits 4) m3l) q3h_2;
         q3_3 = mm256_or_si256 (mm256_and_si256 (mm256_srli_epi16 q3bits 6) m3l) q3h_3
     in [q3_0, q3_1, q3_2, q3_3])"

definition q3_K_sumi :: "nat \<Rightarrow> block_q3_K \<Rightarrow> (nat \<Rightarrow> 'f block_q8_K list) \<Rightarrow> nat \<Rightarrow> m256i list" where
  "q3_K_sumi nrc_y x q8 i =
    (let scales = q3_K_scales x
     in for_loop 2 (\<lambda>j sumi.
          let scales_0 = mm256_shuffle_epi8 (scales ! j) (get_scale_shuffle_16 0);
              scales_1 = mm256_shuffle_epi8 (scales ! j) (get_scale_shuffle_16 1);
              scales_2 = mm256_shuffle_epi8 (scales ! j) (get_scale_shuffle_16 2);
              scales_3 = mm256_shuffle_epi8 (scales ! j) (get_scale_shuffle_16 3);
              q3 = q3_K_quants x j
          in for_loop nrc_y (\<lambda>iy sumi.
               let p16_0 = mm256_madd_epi16 scales_0 (mm256_maddubs_epi16 (q3 ! 0) (load_quants q8 iy i (4 * j)));
                   p16_1 = mm256_madd_epi16 scales_1 (mm256_maddubs_epi16 (q3 ! 1) (load_quants q8 iy i (4 * j + 1)));
                   p16_2 = mm256_madd_epi16 scales_2 (mm256_maddubs_epi16 (q3 ! 2) (load_quants q8 iy i (4 * j + 2)));
                   p16_3 = mm256_madd_epi16 scales_3 (mm256_maddubs_epi16 (q3 ! 3) (load_quants q8 iy i (4 * j + 3)));
                   sumi1 = sumi[iy := mm256_add_epi32 (sumi ! iy) (mm256_add_epi32 p16_0 p16_1)]
               in sumi1[iy := mm256_add_epi32 (sumi1 ! iy) (mm256_add_epi32 p16_2 p16_3)]) sumi)
          (replicate nrc_y mm256_setzero_si256))"

definition q3_K_superblock ::
  "'f fops \<Rightarrow> nat \<Rightarrow> block_q3_K \<Rightarrow> (nat \<Rightarrow> 'f block_q8_K list) \<Rightarrow> nat \<Rightarrow>
   'f list list \<times> 'f list list \<Rightarrow> 'f list list \<times> 'f list list" where
  "q3_K_superblock ops nrc_y x q8 i acc =
    (let accd0 = fst acc; accm0 = snd acc;
         d3 = f_of_fp16 ops (q3_d x);
         all_scales = q3_K_all_scales x;
         vd = vec nrc_y (\<lambda>iy. mm256_set1_ps (f_mul ops d3 (q8_scale q8 iy i)));
         accm1 = for_loop nrc_y (\<lambda>iy accm.
           let prod = mm256_madd_epi16 all_scales (load_bsums q8 iy i)
           in accm[iy := mm256_fmadd_ps ops (vd ! iy) (mm256_cvtepi32_ps ops prod) (accm ! iy)]) accm0;
         sumi = q3_K_sumi nrc_y x q8 i;
         accd1 = for_loop nrc_y (\<lambda>iy accd.
           accd[iy := mm256_fmadd_ps ops (vd ! iy) (mm256_cvtepi32_ps ops (sumi ! iy)) (accd ! iy)]) accd0
     in (accd1, accm1))"

definition mul_mat_q3_K_q8_K_T ::
  "'f fops \<Rightarrow> nat \<Rightarrow> block_q3_K heap \<Rightarrow> 'f block_q8_K heap \<Rightarrow>
   int \<Rightarrow> int \<Rightarrow> int \<Rightarrow> int \<Rightarrow> int \<Rightarrow> int \<Rightarrow> int \<Rightarrow> int \<Rightarrow> 'f store \<Rightarrow> error + 'f store" where
  "mul_mat_q3_K_q8_K_T ops nrc_y A B n s bs vx bx vy by nrc_x C0 =
    (if c_rem n QK_K \<noteq> 0 then Inl AssertionFailed
     else
       let nb = nat (c_div n QK_K);
           q8 = Q8 B vy by
       in Inr (for_loop (nat nrc_x) (\<lambda>ix C.
            let x = A (vx + int ix * bx);
                acc = for_loop nb (\<lambda>i acc. q3_K_superblock ops nrc_y (x ! i) q8 i acc)
                        (replicate nrc_y (mm256_setzero_ps ops), replicate nrc_y (mm256_setzero_ps ops));
                accd = fst acc; accm = snd acc
            in for_loop nrc_y (\<lambda>iy C.
                 C(s + int ix + int iy * bs :=
                   f_sub ops (hsum_float_8 ops (accd ! iy))
                     (f_mul ops (f_lit ops 4) (hsum_float_8 ops (accm ! iy))))) C) C0))"

subsection \<open>Q4_K\<close>

text \<open>The scale set-up that Q4_K and Q5_K share: the register \<^verbatim>\<open>mins_and_scales\<close>, its
  upper half \<^verbatim>\<open>mins\<close>, and \<^verbatim>\<open>scales\<close>, which holds its lower half \<^verbatim>\<open>sc128\<close> twice.\<close>

definition q4_K_mins_and_scales :: "u8 list \<Rightarrow> m256i" where
  "q4_K_mins_and_scales scales8 =
    (let utmp = make_q4_scales scales8
     in mm256_cvtepu8_epi16 (mm_set_epi32 (utmp ! 3) (utmp ! 2) (utmp ! 1) (utmp ! 0)))"

definition q4_K_mins :: "u8 list \<Rightarrow> m128i" where
  "q4_K_mins scales8 = mm256_extracti128_si256 (q4_K_mins_and_scales scales8) 1"

definition q4_K_sc128 :: "u8 list \<Rightarrow> m128i" where
  "q4_K_sc128 scales8 = mm256_extracti128_si256 (q4_K_mins_and_scales scales8) 0"

definition q4_K_scales :: "u8 list \<Rightarrow> m256i" where
  "q4_K_scales scales8 = (let sc128 = q4_K_sc128 scales8 in MM256_SET_M128I sc128 sc128)"

text \<open>The correction accumulators \<^verbatim>\<open>accm\<close> after the loop over \<open>iy\<close>, with \<open>c = -dmin\<close>.\<close>

definition q4_K_accm ::
  "'f fops \<Rightarrow> nat \<Rightarrow> u8 list \<Rightarrow> 'f \<Rightarrow> (nat \<Rightarrow> 'f block_q8_K list) \<Rightarrow> nat \<Rightarrow> 'f list list \<Rightarrow> 'f list list" where
  "q4_K_accm ops nrc_y scales8 c q8 i accm0 =
    (let mins = q4_K_mins scales8
     in for_loop nrc_y (\<lambda>iy accm.
          let q8sums = load_bsums q8 iy i;
              q8s = mm_hadd_epi16 (mm256_extracti128_si256 q8sums 0) (mm256_extracti128_si256 q8sums 1);
              prod = mm_madd_epi16 mins q8s
          in accm[iy := mm_fmadd_ps ops (mm_set1_ps (f_mul ops c (q8_scale q8 iy i)))
                          (mm_cvtepi32_ps ops prod) (accm ! iy)]) accm0)"

text \<open>The registers \<^verbatim>\<open>q4l\<close>, \<^verbatim>\<open>q4h\<close> of iteration \<open>j\<close>.\<close>

definition q4_K_quants :: "nat \<Rightarrow> block_q4_K \<Rightarrow> nat \<Rightarrow> m256i list" where
  "q4_K_quants nrc_y x j =
    (let ml = mm256_set1_epi8 0x0F;
         mh = mm256_set1_epi8 (- 16);
         q4bits = mm256_loadu_si256 (q4_qs x) (32 * j);
         q4l = mm256_and_si256 q4bits ml;
         q4h = (if nrc_y \<le> 2 then mm256_and_si256 q4bits mh
                else mm256_and_si256 (mm256_srli_epi16 q4bits 4) ml)
     in [q4l, q4h])"

definition q4_K_sumi :: "nat \<Rightarrow> block_q4_K \<Rightarrow> (nat \<Rightarrow> 'f block_q8_K list) \<Rightarrow> nat \<Rightarrow> m256i list" where
  "q4_K_sumi nrc_y x q8 i =
    (let k_nrc = (if nrc_y \<le> 2 then 2 * nrc_y else nrc_y);
         scales = q4_K_scales (q4_scales x)
     in for_loop 4 (\<lambda>j sumi.
          let scales_l = mm256_shuffle_epi8 scales (get_scale_shuffle_8 (2 * j));
              scales_h = mm256_shuffle_epi8 scales (get_scale_shuffle_8 (2 * j + 1));
              q4 = q4_K_quants nrc_y x j
          in for_loop nrc_y (\<lambda>iy sumi.
               let q8l = load_quants q8 iy i (2 * j);
                   q8h = load_quants q8 iy i (2 * j + 1)
               in if nrc_y \<le> 2
                  then (sumi[2 * iy := mm256_add_epi32 (sumi ! (2 * iy))
                              (mm256_madd_epi16 scales_l (mm256_maddubs_epi16 (q4 ! 0) q8l))])
                         [2 * iy + 1 := mm256_add_epi32 (sumi ! (2 * iy + 1))
                              (mm256_madd_epi16 scales_h (mm256_maddubs_epi16 (q4 ! 1) q8h))]
                  else
                    let pl = mm256_madd_epi16 scales_l (mm256_maddubs_epi16 (q4 ! 0) q8l);
                        ph = mm256_madd_epi16 scales_h (mm256_maddubs_epi16 (q4 ! 1) q8h)
                    in sumi[iy := mm256_add_epi32 (sumi ! iy) (mm256_add_epi32 pl ph)]) sumi)
          (replicate k_nrc mm256_setzero_si256))"

definition q4_K_superblock ::
  "'f fops \<Rightarrow> nat \<Rightarrow> block_q4_K \<Rightarrow> (nat \<Rightarrow> 'f block_q8_K list) \<Rightarrow> nat \<Rightarrow>
   'f list list \<times> 'f list list \<Rightarrow> 'f list list \<times> 'f list list" where
  "q4_K_superblock ops nrc_y x q8 i acc =
    (let accd0 = fst acc; accm0 = snd acc;
         d = f_of_fp16 ops (q4_d x);
         c = f_neg ops (f_of_fp16 ops (q4_dmin x));
         accm1 = q4_K_accm ops nrc_y (q4_scales x) c q8 i accm0;
         sumi = q4_K_sumi nrc_y x q8 i;
         accd1 = for_loop nrc_y (\<lambda>iy accd.
           let vd = mm256_set1_ps (f_mul ops d (q8_scale q8 iy i))
           in if nrc_y \<le> 2
              then (accd[2 * iy := mm256_fmadd_ps ops vd (mm256_cvtepi32_ps ops (sumi ! (2 * iy))) (accd ! (2 * iy))])
                     [2 * iy + 1 := mm256_fmadd_ps ops vd (mm256_cvtepi32_ps ops (sumi ! (2 * iy + 1))) (accd ! (2 * iy + 1))]
              else accd[iy := mm256_fmadd_ps ops vd (mm256_cvtepi32_ps ops (sumi ! iy)) (accd ! iy)]) accd0
     in (accd1, accm1))"

definition mul_mat_q4_K_q8_K_T ::
  "'f fops \<Rightarrow> nat \<Rightarrow> block_q4_K heap \<Rightarrow> 'f block_q8_K heap \<Rightarrow>
   int \<Rightarrow> int \<Rightarrow> int \<Rightarrow> int \<Rightarrow> int \<Rightarrow> int \<Rightarrow> int \<Rightarrow> int \<Rightarrow> 'f store \<Rightarrow> error + 'f store" where
  "mul_mat_q4_K_q8_K_T ops nrc_y A B n s bs vx bx vy by nrc_x C0 =
    (if c_rem n QK_K \<noteq> 0 then Inl AssertionFailed
     else
       let nb = nat (c_div n QK_K);
           k_nrc = (if nrc_y \<le> 2 then 2 * nrc_y else nrc_y);
           q8 = Q8 B vy by
       in Inr (for_loop (nat nrc_x) (\<lambda>ix C.
            let x = A (vx + bx * int ix);
                acc = for_loop nb (\<lambda>i acc. q4_K_superblock ops nrc_y (x ! i) q8 i acc)
                        (replicate k_nrc (mm256_setzero_ps ops), replicate nrc_y (mm_setzero_ps ops));
                accd = fst acc; accm = snd acc
            in for_loop nrc_y (\<lambda>iy C.
                 if nrc_y \<le> 2
                 then C(s + int ix + int iy * bs :=
                        f_add ops
                          (f_add ops (hsum_float_8 ops (accd ! (2 * iy)))
                             (f_mul ops (f_lit ops 0.0625) (hsum_float_8 ops (accd ! (2 * iy + 1)))))
                          (hsum_float_4 ops (accm ! iy)))
                 else
                   let d = mm_add_ps ops (mm256_castps256_ps128 (accd ! iy)) (mm256_extractf128_ps (accd ! iy) 1)
                   in C(s + int ix + int iy * bs := hsum_float_4 ops (mm_add_ps ops d (accm ! iy)))) C) C0))"

subsection \<open>Q5_K\<close>

text \<open>The registers \<^verbatim>\<open>q5_1 .. q5_4\<close> of iteration \<open>j\<close>.\<close>

definition q5_K_quants :: "block_q5_K \<Rightarrow> nat \<Rightarrow> m256i list" where
  "q5_K_quants x j =
    (let ml = mm256_set1_epi8 0x0F;
         mh = mm256_set1_epi8 0x10;
         hbits0 = mm256_loadu_si256 (q5_qh x) 0;
         hbits = [hbits0, mm256_srli_epi16 hbits0 4];
         q5h_1 = mm256_and_si256 (mm256_slli_epi16 (hbits ! j) 4) mh;
         q5h_2 = mm256_and_si256 (mm256_slli_epi16 (hbits ! j) 3) mh;
         q5h_3 = mm256_and_si256 (mm256_slli_epi16 (hbits ! j) 2) mh;
         q5h_4 = mm256_and_si256 (mm256_slli_epi16 (hbits ! j) 1) mh;
         q5bits1 = mm256_loadu_si256 (q5_qs x) (64 * j);
         q5_1 = mm256_add_epi8 (mm256_and_si256 q5bits1 ml) q5h_1;
         q5_2 = mm256_add_epi8 (mm256_and_si256 (mm256_srli_epi16 q5bits1 4) ml) q5h_2;
         q5bits2 = mm256_loadu_si256 (q5_qs x) (64 * j + 32);
         q5_3 = mm256_add_epi8 (mm256_and_si256 q5bits2 ml) q5h_3;
         q5_4 = mm256_add_epi8 (mm256_and_si256 (mm256_srli_epi16 q5bits2 4) ml) q5h_4
     in [q5_1, q5_2, q5_3, q5_4])"

definition q5_K_sumi :: "nat \<Rightarrow> block_q5_K \<Rightarrow> (nat \<Rightarrow> 'f block_q8_K list) \<Rightarrow> nat \<Rightarrow> m256i list" where
  "q5_K_sumi nrc_y x q8 i =
    (let scales = q4_K_scales (q5_scales x)
     in for_loop 2 (\<lambda>j sumi.
          let scales_1 = mm256_shuffle_epi8 scales (get_scale_shuffle_8 (4 * j));
              scales_2 = mm256_shuffle_epi8 scales (get_scale_shuffle_8 (4 * j + 1));
              scales_3 = mm256_shuffle_epi8 scales (get_scale_shuffle_8 (4 * j + 2));
              scales_4 = mm256_shuffle_epi8 scales (get_scale_shuffle_8 (4 * j + 3));
              q5 = q5_K_quants x j
          in for_loop nrc_y (\<lambda>iy sumi.
               let p1 = mm256_madd_epi16 scales_1 (mm256_maddubs_epi16 (q5 ! 0) (load_quants q8 iy i (4 * j)));
                   p2 = mm256_madd_epi16 scales_2 (mm256_maddubs_epi16 (q5 ! 1) (load_quants q8 iy i (4 * j + 1)));
                   p3 = mm256_madd_epi16 scales_3 (mm256_maddubs_epi16 (q5 ! 2) (load_quants q8 iy i (4 * j + 2)));
                   p4 = mm256_madd_epi16 scales_4 (mm256_maddubs_epi16 (q5 ! 3) (load_quants q8 iy i (4 * j + 3)));
                   sumi1 = sumi[iy := mm256_add_epi32 (sumi ! iy) (mm256_add_epi32 p1 p3)]
               in sumi1[iy := mm256_add_epi32 (sumi1 ! iy) (mm256_add_epi32 p2 p4)]) sumi)
          (replicate nrc_y mm256_setzero_si256))"

definition q5_K_superblock ::
  "'f fops \<Rightarrow> nat \<Rightarrow> block_q5_K \<Rightarrow> (nat \<Rightarrow> 'f block_q8_K list) \<Rightarrow> nat \<Rightarrow>
   'f list list \<times> 'f list list \<Rightarrow> 'f list list \<times> 'f list list" where
  "q5_K_superblock ops nrc_y x q8 i acc =
    (let accd0 = fst acc; accm0 = snd acc;
         d = f_of_fp16 ops (q5_d x);
         c = f_neg ops (f_of_fp16 ops (q5_dmin x));
         accm1 = q4_K_accm ops nrc_y (q5_scales x) c q8 i accm0;
         sumi = q5_K_sumi nrc_y x q8 i;
         accd1 = for_loop nrc_y (\<lambda>iy accd.
           let vd = mm256_set1_ps (f_mul ops d (q8_scale q8 iy i))
           in accd[iy := mm256_fmadd_ps ops vd (mm256_cvtepi32_ps ops (sumi ! iy)) (accd ! iy)]) accd0
     in (accd1, accm1))"

definition mul_mat_q5_K_q8_K_T ::
  "'f fops \<Rightarrow> nat \<Rightarrow> block_q5_K heap \<Rightarrow> 'f block_q8_K heap \<Rightarrow>
   int \<Rightarrow> int \<Rightarrow> int \<Rightarrow> int \<Rightarrow> int \<Rightarrow> int \<Rightarrow> int \<Rightarrow> int \<Rightarrow> 'f store \<Rightarrow> error + 'f store" where
  "mul_mat_q5_K_q8_K_T ops nrc_y A B n s bs vx bx vy by nrc_x C0 =
    (if c_rem n QK_K \<noteq> 0 then Inl AssertionFailed
     else
       let nb = nat (c_div n QK_K);
           q8 = Q8 B vy by
       in Inr (for_loop (nat nrc_x) (\<lambda>ix C.
            let x = A (vx + bx * int ix);
                acc = for_loop nb (\<lambda>i acc. q5_K_superblock ops nrc_y (x ! i) q8 i acc)
                        (replicate nrc_y (mm256_setzero_ps ops), replicate nrc_y (mm_setzero_ps ops));
                accd = fst acc; accm = snd acc
            in for_loop nrc_y (\<lambda>iy C.
                 let d = mm_add_ps ops (mm256_castps256_ps128 (accd ! iy)) (mm256_extractf128_ps (accd ! iy) 1)
                 in C(s + int ix + int iy * bs := hsum_float_4 ops (mm_add_ps ops d (accm ! iy)))) C) C0))"

subsection \<open>Q6_K\<close>

definition q6_K_scales16 :: "block_q6_K \<Rightarrow> m256i" where
  "q6_K_scales16 x = mm256_cvtepi8_epi16 (mm_loadu_si128 (q6_scales x) 0)"

definition q6_K_scales :: "block_q6_K \<Rightarrow> m256i list" where
  "q6_K_scales x =
    (let scales16 = q6_K_scales16 x
     in [MM256_SET_M128I (mm256_castsi256_si128 scales16) (mm256_castsi256_si128 scales16),
         MM256_SET_M128I (mm256_extractf128_si256 scales16 1) (mm256_extractf128_si256 scales16 1)])"

text \<open>The registers \<^verbatim>\<open>q6_0 .. q6_3\<close> of iteration \<open>j\<close>.\<close>

definition q6_K_quants :: "block_q6_K \<Rightarrow> nat \<Rightarrow> m256i list" where
  "q6_K_quants x j =
    (let m4 = mm256_set1_epi8 0xF;
         mh = mm256_set1_epi8 0x30;
         q4bits1 = mm256_loadu_si256 (q6_ql x) (64 * j);
         q4bits2 = mm256_loadu_si256 (q6_ql x) (64 * j + 32);
         q4bitsH = mm256_loadu_si256 (q6_qh x) (32 * j);
         q4h_0 = mm256_and_si256 (mm256_slli_epi16 q4bitsH 4) mh;
         q4h_1 = mm256_and_si256 (mm256_slli_epi16 q4bitsH 2) mh;
         q4h_2 = mm256_and_si256 q4bitsH mh;
         q4h_3 = mm256_and_si256 (mm256_srli_epi16 q4bitsH 2) mh;
         q6_0 = mm256_or_si256 (mm256_and_si256 q4bits1 m4) q4h_0;
         q6_1 = mm256_or_si256 (mm256_and_si256 q4bits2 m4) q4h_1;
         q6_2 = mm256_or_si256 (mm256_and_si256 (mm256_srli_epi16 q4bits1 4) m4) q4h_2;
         q6_3 = mm256_or_si256 (mm256_and_si256 (mm256_srli_epi16 q4bits2 4) m4) q4h_3
     in [q6_0, q6_1, q6_2, q6_3])"

definition q6_K_sumi :: "nat \<Rightarrow> block_q6_K \<Rightarrow> (nat \<Rightarrow> 'f block_q8_K list) \<Rightarrow> nat \<Rightarrow> m256i list" where
  "q6_K_sumi nrc_y x q8 i =
    (let scales = q6_K_scales x
     in for_loop 2 (\<lambda>j sumi.
          let scale_0 = mm256_shuffle_epi8 (scales ! j) (get_scale_shuffle_16 0);
              scale_1 = mm256_shuffle_epi8 (scales ! j) (get_scale_shuffle_16 1);
              scale_2 = mm256_shuffle_epi8 (scales ! j) (get_scale_shuffle_16 2);
              scale_3 = mm256_shuffle_epi8 (scales ! j) (get_scale_shuffle_16 3);
              q6 = q6_K_quants x j
          in for_loop nrc_y (\<lambda>iy sumi.
               let p16_0 = mm256_madd_epi16 scale_0 (mm256_maddubs_epi16 (q6 ! 0) (load_quants q8 iy i (4 * j)));
                   p16_1 = mm256_madd_epi16 scale_1 (mm256_maddubs_epi16 (q6 ! 1) (load_quants q8 iy i (4 * j + 1)));
                   p16_2 = mm256_madd_epi16 scale_2 (mm256_maddubs_epi16 (q6 ! 2) (load_quants q8 iy i (4 * j + 2)));
                   p16_3 = mm256_madd_epi16 scale_3 (mm256_maddubs_epi16 (q6 ! 3) (load_quants q8 iy i (4 * j + 3)))
               in sumi[iy := mm256_add_epi32 (sumi ! iy)
                    (mm256_add_epi32 (mm256_add_epi32 p16_0 p16_1) (mm256_add_epi32 p16_2 p16_3))]) sumi)
          (replicate nrc_y mm256_setzero_si256))"

definition q6_K_superblock ::
  "'f fops \<Rightarrow> nat \<Rightarrow> block_q6_K \<Rightarrow> (nat \<Rightarrow> 'f block_q8_K list) \<Rightarrow> nat \<Rightarrow>
   'f list list \<times> 'f list list \<Rightarrow> 'f list list \<times> 'f list list" where
  "q6_K_superblock ops nrc_y x q8 i acc =
    (let accd0 = fst acc; accm0 = snd acc;
         d6 = f_of_fp16 ops (q6_d x);
         scales16 = q6_K_scales16 x;
         vd = vec nrc_y (\<lambda>iy. mm256_set1_ps (f_mul ops d6 (q8_scale q8 iy i)));
         accm1 = for_loop nrc_y (\<lambda>iy accm.
           let prod = mm256_madd_epi16 scales16 (load_bsums q8 iy i)
           in accm[iy := mm256_fmadd_ps ops (vd ! iy) (mm256_cvtepi32_ps ops prod) (accm ! iy)]) accm0;
         sumi = q6_K_sumi nrc_y x q8 i;
         accd1 = for_loop nrc_y (\<lambda>iy accd.
           accd[iy := mm256_fmadd_ps ops (vd ! iy) (mm256_cvtepi32_ps ops (sumi ! iy)) (accd ! iy)]) accd0
     in (accd1, accm1))"

definition mul_mat_q6_K_q8_K_T ::
  "'f fops \<Rightarrow> nat \<Rightarrow> block_q6_K heap \<Rightarrow> 'f block_q8_K heap \<Rightarrow>
   int \<Rightarrow> int \<Rightarrow> int \<Rightarrow> int \<Rightarrow> int \<Rightarrow> int \<Rightarrow> int \<Rightarrow> int \<Rightarrow> 'f store \<Rightarrow> error + 'f store" where
  "mul_mat_q6_K_q8_K_T ops nrc_y A B n s bs vx bx vy by nrc_x C0 =
    (if c_rem n QK_K \<noteq> 0 then Inl AssertionFailed
     else
       let nb = nat (c_div n QK_K);
           q8 = Q8 B vy by
       in Inr (for_loop (nat nrc_x) (\<lambda>ix C.
            let x = A (vx + int ix * bx);
                acc = for_loop nb (\<lambda>i acc. q6_K_superblock ops nrc_y (x ! i) q8 i acc)
                        (replicate nrc_y (mm256_setzero_ps ops), replicate nrc_y (mm256_setzero_ps ops));
                accd = fst acc; accm = snd acc
            in for_loop nrc_y (\<lambda>iy C.
                 C(s + int ix + int iy * bs :=
                   f_sub ops (hsum_float_8 ops (accd ! iy))
                     (f_mul ops (f_lit ops 32) (hsum_float_8 ops (accm ! iy))))) C) C0))"

subsection \<open>IQ4_XS\<close>

definition kvalues_iq4nl :: "u8 list" where
  "kvalues_iq4nl = [- 127, - 104, - 83, - 65, - 49, - 35, - 22, - 10, 1, 13, 25, 38, 53, 69, 89, 113]"

definition iq4_k_shuffle :: "u8 list" where
  "iq4_k_shuffle = [0, 4, 1, 5, 2, 6, 3, 7, 0, 4, 1, 5, 2, 6, 3, 7]"

definition dequant :: "u8 list \<Rightarrow> nat \<Rightarrow> m256i" where
  "dequant qs off =
    (let m4 = mm256_set1_epi8 0xf;
         aux128 = mm_loadu_si128 qs off;
         aux256 = MM256_SET_M128I (mm_srli_epi16 aux128 4) aux128
     in mm256_and_si256 m4 aux256)"

definition mul_signed :: "m256i \<Rightarrow> m256i \<Rightarrow> m256i" where
  "mul_signed x y =
    (let ux = mm256_sign_epi8 x x;
         sy = mm256_sign_epi8 y x
     in mm256_maddubs_epi16 ux sy)"

definition iq4_xs_scales128 :: "block_iq4_xs \<Rightarrow> m128i" where
  "iq4_xs_scales128 x =
    (let hshift = mm_set_epi32 12 8 4 0;
         lshift = mm_set_epi32 4 0 4 0;
         hmask = mm_set1_epi16 0x03;
         lmask = mm_set1_epi8 0xf;
         lshuffle = mm_loadu_si128 iq4_k_shuffle 0;
         m32 = mm_set1_epi16 (- 32);
         tmp32 = (ucast (iq4_scales_h x) OR push_bit 14 (ucast (iq4_scales_h x)) :: u32);
         sh = mm_slli_epi16 (mm_and_si128 (mm_srlv_epi32 (mm_set1_epi32 tmp32) hshift) hmask) 4;
         scl = (let p = iq4_scales_l x in le32 (p ! 0) (p ! 1) (p ! 2) (p ! 3));
         sl = mm_and_si128 (mm_srlv_epi32 (mm_set1_epi32 scl) lshift) lmask
     in mm_add_epi16 (mm_or_si128 sh (mm_cvtepi8_epi16 (mm_shuffle_epi8 sl lshuffle))) m32)"

definition iq4_xs_scales :: "block_iq4_xs \<Rightarrow> m256i" where
  "iq4_xs_scales x = (let scales128 = iq4_xs_scales128 x in MM256_SET_M128I scales128 scales128)"

text \<open>The registers \<^verbatim>\<open>q4b_1\<close>, \<^verbatim>\<open>q4b_2\<close> of iteration \<open>j\<close>.\<close>

definition iq4_xs_quants :: "block_iq4_xs \<Rightarrow> nat \<Rightarrow> m256i list" where
  "iq4_xs_quants x j =
    (let values128 = mm_loadu_si128 kvalues_iq4nl 0;
         values = MM256_SET_M128I values128 values128;
         q4b_1 = mm256_shuffle_epi8 values (dequant (iq4_qs x) (32 * j));
         q4b_2 = mm256_shuffle_epi8 values (dequant (iq4_qs x) (32 * j + 16))
     in [q4b_1, q4b_2])"

definition iq4_xs_sumi :: "nat \<Rightarrow> block_iq4_xs \<Rightarrow> (nat \<Rightarrow> 'f block_q8_K list) \<Rightarrow> nat \<Rightarrow> m256i list" where
  "iq4_xs_sumi nrc_y x q8 ibl =
    (let scales = iq4_xs_scales x
     in for_loop 4 (\<lambda>j sumi.
          let q4b = iq4_xs_quants x j;
              scales_1 = mm256_shuffle_epi8 scales (get_scale_shuffle_8 (2 * j));
              scales_2 = mm256_shuffle_epi8 scales (get_scale_shuffle_8 (2 * j + 1))
          in for_loop nrc_y (\<lambda>iy sumi.
               let p16_1 = mul_signed (q4b ! 0) (load_quants q8 iy ibl (2 * j));
                   p16_2 = mul_signed (q4b ! 1) (load_quants q8 iy ibl (2 * j + 1));
                   p_1 = mm256_madd_epi16 p16_1 scales_1;
                   p_2 = mm256_madd_epi16 p16_2 scales_2
               in sumi[iy := mm256_add_epi32 (mm256_add_epi32 p_1 p_2) (sumi ! iy)]) sumi)
          (replicate nrc_y mm256_setzero_si256))"

definition iq4_xs_superblock ::
  "'f fops \<Rightarrow> nat \<Rightarrow> block_iq4_xs \<Rightarrow> (nat \<Rightarrow> 'f block_q8_K list) \<Rightarrow> nat \<Rightarrow> 'f list list \<Rightarrow> 'f list list" where
  "iq4_xs_superblock ops nrc_y x q8 ibl accum0 =
    (let sumi = iq4_xs_sumi nrc_y x q8 ibl
     in for_loop nrc_y (\<lambda>iy accum.
          let vd = mm256_set1_ps (f_mul ops (f_of_fp16 ops (iq4_d x)) (q8_scale q8 iy ibl))
          in accum[iy := mm256_fmadd_ps ops vd (mm256_cvtepi32_ps ops (sumi ! iy)) (accum ! iy)]) accum0)"

definition mul_mat_iq4_xs_q8_K_T ::
  "'f fops \<Rightarrow> nat \<Rightarrow> block_iq4_xs heap \<Rightarrow> 'f block_q8_K heap \<Rightarrow>
   int \<Rightarrow> int \<Rightarrow> int \<Rightarrow> int \<Rightarrow> int \<Rightarrow> int \<Rightarrow> int \<Rightarrow> int \<Rightarrow> 'f store \<Rightarrow> error + 'f store" where
  "mul_mat_iq4_xs_q8_K_T ops nrc_y A B n s bs vx bx vy by nrc_x C0 =
    (if c_rem n QK_K \<noteq> 0 then Inl AssertionFailed
     else
       let nb = nat (c_div n QK_K);
           q8 = Q8 B vy by
       in Inr (for_loop (nat nrc_x) (\<lambda>ix C.
            let x = A (vx + int ix * bx);
                accum = for_loop nb (\<lambda>ibl accum. iq4_xs_superblock ops nrc_y (x ! ibl) q8 ibl accum)
                          (replicate nrc_y (mm256_setzero_ps ops))
            in for_loop nrc_y (\<lambda>iy C.
                 C(s + int ix + int iy * bs := hsum_float_8 ops (accum ! iy))) C) C0))"

section \<open>Column peeling and the entry point\<close>

text \<open>
  A kernel as \<^verbatim>\<open>mul_mat_NxM\<close> sees it (\<^verbatim>\<open>mul_mat_t\<close>): the arguments
  \<^verbatim>\<open>n, s, bs, vx, bx, vy, by, nrc_x\<close> and the memory it updates. Pointers are offsets:
  \<open>s\<close> an element index into \<^verbatim>\<open>C\<close>, \<open>vx\<close> and \<open>vy\<close> byte addresses. The memory type is
  a parameter, so that the peeling can be studied with kernels that only record how
  they were called.
\<close>

type_synonym 'st mul_mat_t =
  "int \<Rightarrow> int \<Rightarrow> int \<Rightarrow> int \<Rightarrow> int \<Rightarrow> int \<Rightarrow> int \<Rightarrow> int \<Rightarrow> 'st \<Rightarrow> error + 'st"

text \<open>A \<^verbatim>\<open>for\<close> loop whose body can fail: the first failure ends it.\<close>

definition for_loop_err :: "nat \<Rightarrow> (nat \<Rightarrow> 's \<Rightarrow> error + 's) \<Rightarrow> 's \<Rightarrow> error + 's" where
  "for_loop_err n body s =
     fold (\<lambda>i r. case r of Inl e \<Rightarrow> Inl e | Inr t \<Rightarrow> body i t) [0..<n] (Inr s)"

text \<open>The variables the lambda \<^verbatim>\<open>process\<close> captures by reference, and the memory.\<close>

record 'st peel_state =
  ps_nrc_y :: int
  ps_char_y :: int
  ps_s :: int
  ps_mem :: 'st

definition process ::
  "int \<Rightarrow> int \<Rightarrow> int \<Rightarrow> int \<Rightarrow> int \<Rightarrow> int \<Rightarrow> 'st mul_mat_t option \<Rightarrow> int \<Rightarrow>
   'st peel_state \<Rightarrow> error + (bool \<times> 'st peel_state)" where
  "process n bs vx bx by nrc_x mul_mat step P =
    (case mul_mat of
       None \<Rightarrow> Inr (True, P)
     | Some mm \<Rightarrow>
         if ps_nrc_y P < step then Inr (True, P)
         else
           let n_step = c_div (ps_nrc_y P) step
           in case for_loop_err (nat n_step) (\<lambda>iy.
                     mm n (ps_s P + step * int iy * bs) bs vx bx
                        (ps_char_y P + step * int iy * by) by nrc_x) (ps_mem P) of
                Inl e \<Rightarrow> Inl e
              | Inr m \<Rightarrow>
                  let nrc_y' = ps_nrc_y P - step * n_step
                  in if nrc_y' = 0 then Inr (False, P\<lparr>ps_nrc_y := nrc_y', ps_mem := m\<rparr>)
                     else Inr (True, P\<lparr>ps_nrc_y := nrc_y',
                                         ps_char_y := ps_char_y P + step * n_step * by,
                                         ps_s := ps_s P + step * n_step * bs,
                                         ps_mem := m\<rparr>))"

text \<open>\<^verbatim>\<open>process(mm_nx8, 8) && process(mm_nx4, 4) && process(mm_nx2, 2) && process(mm_nx1, 1)\<close>:
  a step that returns false ends the chain.\<close>

definition and_then ::
  "error + (bool \<times> 'st peel_state) \<Rightarrow> ('st peel_state \<Rightarrow> error + (bool \<times> 'st peel_state)) \<Rightarrow>
   error + (bool \<times> 'st peel_state)" where
  "and_then r f = (case r of Inl e \<Rightarrow> Inl e | Inr (go, P) \<Rightarrow> if go then f P else Inr (False, P))"

definition mul_mat_NxM ::
  "int \<Rightarrow> int \<Rightarrow> int \<Rightarrow> int \<Rightarrow> int \<Rightarrow> int \<Rightarrow> int \<Rightarrow> int \<Rightarrow> int \<Rightarrow>
   'st mul_mat_t option \<Rightarrow> 'st mul_mat_t option \<Rightarrow> 'st mul_mat_t option \<Rightarrow> 'st mul_mat_t option \<Rightarrow>
   'st \<Rightarrow> error + 'st" where
  "mul_mat_NxM n s bs vx bx vy by nrc_x nrc_y mm_nx1 mm_nx2 mm_nx4 mm_nx8 mem =
    (let P0 = \<lparr>ps_nrc_y = nrc_y, ps_char_y = vy, ps_s = s, ps_mem = mem\<rparr>;
         pr = process n bs vx bx by nrc_x
     in case and_then (and_then (and_then (pr mm_nx8 8 P0) (pr mm_nx4 4)) (pr mm_nx2 2)) (pr mm_nx1 1) of
          Inl e \<Rightarrow> Inl e
        | Inr (go, P) \<Rightarrow> Inr (ps_mem P))"

text \<open>
  What the entry point takes from \<^verbatim>\<open>ggml.h\<close>, which is not part of the sources at
  hand: the numeric type tags and \<^verbatim>\<open>ggml_row_size\<close>. They are parameters.
\<close>

record ggml_env =
  GGML_TYPE_Q2_K :: int
  GGML_TYPE_Q3_K :: int
  GGML_TYPE_Q4_K :: int
  GGML_TYPE_Q5_K :: int
  GGML_TYPE_Q6_K :: int
  GGML_TYPE_IQ4_XS :: int
  GGML_TYPE_Q8_K :: int
  ggml_row_size :: "int \<Rightarrow> int \<Rightarrow> int"

text \<open>The operand \<^verbatim>\<open>A\<close> is a \<^verbatim>\<open>const void *\<close>: the kernel selected by the tag decides as
  which block type the bytes are read. The model holds one typed view per block type.\<close>

record a_operand =
  as_q2_K :: "block_q2_K heap"
  as_q3_K :: "block_q3_K heap"
  as_q4_K :: "block_q4_K heap"
  as_q5_K :: "block_q5_K heap"
  as_q6_K :: "block_q6_K heap"
  as_iq4_xs :: "block_iq4_xs heap"

text \<open>The \<^verbatim>\<open>switch\<close> on \<open>typeA\<close>: the kernel family \<open>nrc_y \<mapsto> kernel\<close>, or \<open>None\<close> for the
  \<^verbatim>\<open>default\<close> branch.\<close>

definition select_kernels ::
  "ggml_env \<Rightarrow> 'f fops \<Rightarrow> int \<Rightarrow> a_operand \<Rightarrow> 'f block_q8_K heap \<Rightarrow> (nat \<Rightarrow> 'f store mul_mat_t) option" where
  "select_kernels env ops typeA A B =
    (if typeA = GGML_TYPE_Q2_K env then Some (\<lambda>m. mul_mat_q2_K_q8_K_T ops m (as_q2_K A) B)
     else if typeA = GGML_TYPE_Q3_K env then Some (\<lambda>m. mul_mat_q3_K_q8_K_T ops m (as_q3_K A) B)
     else if typeA = GGML_TYPE_Q4_K env then Some (\<lambda>m. mul_mat_q4_K_q8_K_T ops m (as_q4_K A) B)
     else if typeA = GGML_TYPE_Q5_K env then Some (\<lambda>m. mul_mat_q5_K_q8_K_T ops m (as_q5_K A) B)
     else if typeA = GGML_TYPE_Q6_K env then Some (\<lambda>m. mul_mat_q6_K_q8_K_T ops m (as_q6_K A) B)
     else if typeA = GGML_TYPE_IQ4_XS env then Some (\<lambda>m. mul_mat_iq4_xs_q8_K_T ops m (as_iq4_xs A) B)
     else None)"

text \<open>The row slice of worker \<open>ith\<close> of \<open>n_th\<close> workers (the source's \<^verbatim>\<open>nth\<close>): \<^verbatim>\<open>first_x\<close> and
  the final \<^verbatim>\<open>nrc_x\<close>, both of type \<^verbatim>\<open>long\<close>.\<close>

definition row_slice :: "int \<Rightarrow> int \<Rightarrow> int \<Rightarrow> int \<times> int" where
  "row_slice Nx ith n_th =
    (let nrc_x = c_div (Nx + n_th - 1) n_th;
         first_x = ith * nrc_x
     in (first_x, if first_x + nrc_x > Nx then Nx - first_x else nrc_x))"

text \<open>The entry point. \<^verbatim>\<open>mul_mat_NxM\<close> takes \<open>n\<close>, \<open>nrc_x\<close> and \<open>nrc_y\<close> as \<^verbatim>\<open>int\<close>, so the
  \<^verbatim>\<open>long\<close> values \<open>ne00\<close>, \<open>nrc_x\<close> and \<open>Ny\<close> are converted at the call.\<close>

definition iqk_mul_mat ::
  "ggml_env \<Rightarrow> 'f fops \<Rightarrow> int \<Rightarrow> int \<Rightarrow> int \<Rightarrow> int \<Rightarrow> a_operand \<Rightarrow> 'f block_q8_K heap \<Rightarrow>
   'f store \<Rightarrow> int \<Rightarrow> int \<Rightarrow> int \<Rightarrow> error + (bool \<times> 'f store)" where
  "iqk_mul_mat env ops Nx Ny ne00 typeA A B C stride_C ith n_th =
    (if c_rem ne00 QK_K \<noteq> 0 then Inl AssertionFailed
     else case select_kernels env ops typeA A B of
       None \<Rightarrow> Inr (False, C)
     | Some mm \<Rightarrow>
         if n_th = 0 then Inl DivisionByZero
         else
           let row_size_qx = ggml_row_size env typeA ne00;
               row_size_q8 = ggml_row_size env (GGML_TYPE_Q8_K env) ne00;
               first_x = fst (row_slice Nx ith n_th);
               nrc_x = snd (row_slice Nx ith n_th)
           in case mul_mat_NxM (to_int ne00) first_x stride_C (row_size_qx * first_x) row_size_qx
                     0 row_size_q8 (to_int nrc_x) (to_int Ny)
                     (Some (mm 1)) (Some (mm 2)) (Some (mm 4)) (Some (mm 8)) C of
                Inl e \<Rightarrow> Inl e
              | Inr C' \<Rightarrow> Inr (True, C'))"

section \<open>Notions used to state the properties\<close>

text \<open>The tags the \<^verbatim>\<open>switch\<close> of the entry point handles.\<close>

definition supported :: "ggml_env \<Rightarrow> int \<Rightarrow> bool" where
  "supported env typeA = (typeA \<in> {GGML_TYPE_Q2_K env, GGML_TYPE_Q3_K env, GGML_TYPE_Q4_K env,
      GGML_TYPE_Q5_K env, GGML_TYPE_Q6_K env, GGML_TYPE_IQ4_XS env})"

text \<open>A concrete environment (the tag values of \<^verbatim>\<open>ggml.h\<close> at the time of the source; a row
  of \<open>n\<close> values is taken to occupy \<open>n\<close> bytes) and an operand without rows, for closed
  instances.\<close>

definition env0 :: ggml_env where
  "env0 = \<lparr>GGML_TYPE_Q2_K = 10, GGML_TYPE_Q3_K = 11, GGML_TYPE_Q4_K = 12, GGML_TYPE_Q5_K = 13,
     GGML_TYPE_Q6_K = 14, GGML_TYPE_IQ4_XS = 23, GGML_TYPE_Q8_K = 15,
     ggml_row_size = (\<lambda>t n. n)\<rparr>"

definition A0 :: a_operand where
  "A0 = \<lparr>as_q2_K = (\<lambda>a. []), as_q3_K = (\<lambda>a. []), as_q4_K = (\<lambda>a. []), as_q5_K = (\<lambda>a. []),
     as_q6_K = (\<lambda>a. []), as_iq4_xs = (\<lambda>a. [])\<rparr>"










text \<open>Two Q8_K super-blocks that agree on \<^verbatim>\<open>d\<close> and \<^verbatim>\<open>qs\<close>; their \<^verbatim>\<open>bsums\<close> are free.\<close>

definition agree_d_qs :: "'f block_q8_K \<Rightarrow> 'f block_q8_K \<Rightarrow> bool" where
  "agree_d_qs y y' = (q8_d y = q8_d y' \<and> q8_qs y = q8_qs y')"

text \<open>The four bytes of a 32-bit word, lowest first.\<close>

definition u32_bytes :: "u32 \<Rightarrow> u8 list" where
  "u32_bytes w = [ucast w, ucast (drop_bit 8 w), ucast (drop_bit 16 w), ucast (drop_bit 24 w)]"
lemma length_vec [simp]: "length (vec n f) = n"
  by (simp add: vec_def)

lemma nth_vec [simp]: "i < n \<Longrightarrow> vec n f ! i = f i"
  by (simp add: vec_def)

lemma for_loop_0 [simp]: "for_loop 0 body s = s"
  by (simp add: for_loop_def)

lemma for_loop_Suc: "for_loop (Suc n) body s = body n (for_loop n body s)"
  by (simp add: for_loop_def)

lemma c_div_nonneg: "0 \<le> a \<Longrightarrow> 0 < b \<Longrightarrow> c_div a b = a div b"
  by (cases "a = 0") (simp_all add: c_div_def)

lemma c_rem_nonneg: "0 \<le> a \<Longrightarrow> 0 < b \<Longrightarrow> c_rem a b = a mod b"
  by (simp add: c_rem_def c_div_nonneg minus_mult_div_eq_mod)

lemma for_loop_err_0 [simp]: "for_loop_err 0 body s = Inr s"
  by (simp add: for_loop_err_def)

lemma for_loop_err_Suc:
  "for_loop_err (Suc n) body s = (case for_loop_err n body s of Inl e \<Rightarrow> Inl e | Inr t \<Rightarrow> body n t)"
  by (simp add: for_loop_err_def)

lemma for_loop_err_id:
  "(\<And>i t. body i t = Inr t) \<Longrightarrow> for_loop_err n body s = Inr s"
  by (induction n) (simp_all add: for_loop_err_Suc)

lemma process_id:
  assumes "\<And>mm s' vy' t. mul_mat = Some mm \<Longrightarrow> mm n s' bs vx bx vy' by nrc_x t = Inr t"
  shows "\<exists>go P'. process n bs vx bx by nrc_x mul_mat step P = Inr (go, P') \<and> ps_mem P' = ps_mem P"
proof (cases mul_mat)
  case None
  then show ?thesis by (auto simp: process_def)
next
  case (Some mm)
  have "for_loop_err k (\<lambda>iy. mm n (ps_s P + step * int iy * bs) bs vx bx
                        (ps_char_y P + step * int iy * by) by nrc_x) (ps_mem P) = Inr (ps_mem P)" for k
    by (rule for_loop_err_id) (simp add: assms Some)
  then show ?thesis
    by (auto simp: process_def Some Let_def)
qed

lemma and_then_id:
  assumes "\<exists>go P'. r = Inr (go, P') \<and> ps_mem P' = m"
    and "\<And>P. \<exists>go P'. f P = Inr (go, P') \<and> ps_mem P' = ps_mem P"
  shows "\<exists>go P'. and_then r f = Inr (go, P') \<and> ps_mem P' = m"
proof -
  from assms(1) obtain go P' where r: "r = Inr (go, P')" "ps_mem P' = m" by blast
  from assms(2)[of P'] obtain go2 P2 where f: "f P' = Inr (go2, P2)" "ps_mem P2 = ps_mem P'" by blast
  show ?thesis using r f by (cases go) (auto simp: and_then_def)
qed

lemma mul_mat_NxM_id:
  assumes k1: "\<And>mm s' vy' t. mm_nx1 = Some mm \<Longrightarrow> mm n s' bs vx bx vy' by nrc_x t = Inr t"
    and k2: "\<And>mm s' vy' t. mm_nx2 = Some mm \<Longrightarrow> mm n s' bs vx bx vy' by nrc_x t = Inr t"
    and k4: "\<And>mm s' vy' t. mm_nx4 = Some mm \<Longrightarrow> mm n s' bs vx bx vy' by nrc_x t = Inr t"
    and k8: "\<And>mm s' vy' t. mm_nx8 = Some mm \<Longrightarrow> mm n s' bs vx bx vy' by nrc_x t = Inr t"
  shows "mul_mat_NxM n s bs vx bx vy by nrc_x nrc_y mm_nx1 mm_nx2 mm_nx4 mm_nx8 mem = Inr mem"
proof -
  let ?P0 = "\<lparr>ps_nrc_y = nrc_y, ps_char_y = vy, ps_s = s, ps_mem = mem\<rparr>"
  let ?pr = "process n bs vx bx by nrc_x"
  have p8: "\<exists>go P'. ?pr mm_nx8 8 ?P0 = Inr (go, P') \<and> ps_mem P' = mem"
    using process_id[of mm_nx8 n bs vx bx "by" nrc_x 8 ?P0] k8 by simp
  have a4: "\<exists>go P'. and_then (?pr mm_nx8 8 ?P0) (?pr mm_nx4 4) = Inr (go, P') \<and> ps_mem P' = mem"
    by (rule and_then_id[OF p8]) (rule process_id, rule k4)
  have a2: "\<exists>go P'. and_then (and_then (?pr mm_nx8 8 ?P0) (?pr mm_nx4 4)) (?pr mm_nx2 2) = Inr (go, P') \<and> ps_mem P' = mem"
    by (rule and_then_id[OF a4]) (rule process_id, rule k2)
  have a1: "\<exists>go P'. and_then (and_then (and_then (?pr mm_nx8 8 ?P0) (?pr mm_nx4 4)) (?pr mm_nx2 2)) (?pr mm_nx1 1) = Inr (go, P') \<and> ps_mem P' = mem"
    by (rule and_then_id[OF a2]) (rule process_id, rule k1)
  then show ?thesis
    by (auto simp: mul_mat_NxM_def Let_def)
qed

lemma bit_u8_bound: "bit (w :: u8) n \<Longrightarrow> n < 8"
  by (drule bit_imp_le_length) simp

lemma bit_u16_bound: "bit (w :: u16) n \<Longrightarrow> n < 16"
  by (drule bit_imp_le_length) simp

lemma bit_le16: "bit (le16 b0 b1) n = (if n < 8 then bit b0 n else n < 16 \<and> bit b1 (n - 8))"
  by (auto simp: le16_def bit_simps dest: bit_u8_bound)

lemma bit_le32: "bit (le32 b0 b1 b2 b3) n =
   (if n < 8 then bit b0 n else if n < 16 then bit b1 (n - 8)
    else if n < 24 then bit b2 (n - 16) else n < 32 \<and> bit b3 (n - 24))"
  by (auto simp: le32_def bit_simps dest: bit_u8_bound)

lemma le16_split: "le16 (ucast w) (ucast (drop_bit 8 w)) = (w :: u16)"
  by (rule bit_word_eqI) (auto simp: bit_le16 bit_simps)

lemma le32_split:
  "le32 (ucast w) (ucast (drop_bit 8 w)) (ucast (drop_bit 16 w)) (ucast (drop_bit 24 w)) = (w :: u32)"
  by (rule bit_word_eqI) (auto simp: bit_le32 bit_simps)

lemma w16_of_epi16 [simp]: "k < n \<Longrightarrow> w16 (of_epi16 n f) k = f k"
  by (simp add: w16_def of_epi16_def le16_split)

lemma mod4_simps: "Suc (4 * k) mod 4 = 1" "Suc (Suc (4 * k)) mod 4 = 2" "Suc (Suc (Suc (4 * k))) mod 4 = 3"
  "Suc (4 * k) div 4 = k" "Suc (Suc (4 * k)) div 4 = k" "Suc (Suc (Suc (4 * k))) div 4 = k"
  by presburger+

lemma w32_of_epi32 [simp]: "k < n \<Longrightarrow> w32 (of_epi32 n f) k = f k"
  by (simp add: w32_def of_epi32_def mod4_simps le32_split)

lemma length_of_epi16 [simp]: "length (of_epi16 n f) = 2 * n"
  by (simp add: of_epi16_def)

lemma length_of_epi32 [simp]: "length (of_epi32 n f) = 4 * n"
  by (simp add: of_epi32_def)

lemma le32_of_le16s:
  "(ucast (le16 b0 b1) OR push_bit 16 (ucast (le16 b2 b3)) :: u32) = le32 b0 b1 b2 b3"
proof (rule bit_word_eqI)
  fix n assume "n < LENGTH(32)"
  then consider "n < 8" | "8 \<le> n" "n < 16" | "16 \<le> n" "n < 24" | "24 \<le> n" "n < 32"
    by fastforce
  then show "bit (ucast (le16 b0 b1) OR push_bit 16 (ucast (le16 b2 b3)) :: u32) n = bit (le32 b0 b1 b2 b3) n"
  proof cases
    case 1
    then show ?thesis by (simp add: bit_le16 bit_le32 bit_simps)
  next
    case 2
    then show ?thesis by (simp add: bit_le16 bit_le32 bit_simps)
  next
    case 3
    then have "n - 16 < 8" by simp
    with 3 show ?thesis by (simp add: bit_le16 bit_le32 bit_simps)
  next
    case 4
    then have "\<not> n - 16 < 8" "n - 16 < 16" "n - 16 - 8 = n - 24" by simp_all
    with 4 show ?thesis by (simp add: bit_le16 bit_le32 bit_simps)
  qed
qed

lemma u32_of_u16s_le32:
  "u32_of_u16s p (2 * k) = le32 (p ! (4 * k)) (p ! (4 * k + 1)) (p ! (4 * k + 2)) (p ! (4 * k + 3))"
proof -
  have "2 * (2 * k) = 4 * k" "2 * (2 * k) + 1 = 4 * k + 1" "2 * (2 * k + 1) = 4 * k + 2"
    "2 * (2 * k + 1) + 1 = 4 * k + 3" by simp_all
  then show ?thesis
    unfolding u32_of_u16s_def u16_at_def by (simp only: le32_of_le16s)
qed




lemma for_loop_cong:
  "(\<And>i s. i < n \<Longrightarrow> f i s = g i s) \<Longrightarrow> for_loop n f s = for_loop n g s"
  by (induction n) (simp_all add: for_loop_Suc)

lemma upt_4: "[0..<4] = [0, 1, 2, 3]" by code_simp
lemma upt_8: "[0..<8] = [0, 1, 2, 3, 4, 5, 6, 7]" by code_simp
lemma upt_16: "[0..<16] = [0, 1, 2, 3, 4, 5, 6, 7, 8, 9, 10, 11, 12, 13, 14, 15]" by code_simp
lemma upt_32: "[0..<32] = [0, 1, 2, 3, 4, 5, 6, 7, 8, 9, 10, 11, 12, 13, 14, 15,
   16, 17, 18, 19, 20, 21, 22, 23, 24, 25, 26, 27, 28, 29, 30, 31]" by code_simp

lemma nth_of_epi32:
  "i < 4 * n \<Longrightarrow> of_epi32 n f ! i = ucast (drop_bit (8 * (i mod 4)) (f (i div 4)))"
  by (simp add: of_epi32_def)

lemma nth_of_epi16:
  "i < 2 * n \<Longrightarrow> of_epi16 n f ! i = ucast (drop_bit (8 * (i mod 2)) (f (i div 2)))"
  by (simp add: of_epi16_def)

lemma w16_extracti128:
  "k < 8 \<Longrightarrow> w16 (mm256_extracti128_si256 v h) k = w16 v (8 * h + k)"
  by (simp add: w16_def mm256_extracti128_si256_def algebra_simps)

section \<open>Column peeling\<close>










section \<open>The entry point: what a call assigns\<close>

lemma select_kernels_None: "\<not> supported env typeA \<Longrightarrow> select_kernels env ops typeA A B = None"
  by (simp add: supported_def select_kernels_def)

lemma select_kernels_Some: "supported env typeA \<Longrightarrow> \<exists>mm. select_kernels env ops typeA A B = Some mm"
  by (auto simp: supported_def select_kernels_def)

text \<open>A kernel whose row count is zero or negative runs its row loop zero times: it
  returns the store it was given.\<close>

lemma select_kernels_no_rows:
  assumes "select_kernels env ops typeA A B = Some mm" "c_rem n QK_K = 0" "nrc_x \<le> 0"
  shows "mm m n s bs vx bx vy by nrc_x C = Inr C"
  using assms
  by (auto simp: select_kernels_def mul_mat_q2_K_q8_K_T_def mul_mat_q3_K_q8_K_T_def
      mul_mat_q4_K_q8_K_T_def mul_mat_q5_K_q8_K_T_def mul_mat_q6_K_q8_K_T_def
      mul_mat_iq4_xs_q8_K_T_def Let_def split: if_splits)

lemma c_rem_simps: "c_rem 1 QK_K = 1" "c_rem 256 QK_K = 0" "c_rem 0 QK_K = 0"
  by (simp_all add: c_rem_def c_div_def QK_K_def)

lemma ceil_div_bounds:
  assumes "1 \<le> (n::int)"
  shows "a \<le> ((a + n - 1) div n) * n" "((a + n - 1) div n - 1) * n < a"
proof -
  define c where "c = (a + n - 1) div n"
  define m where "m = (a + n - 1) mod n"
  have e: "n * c + m = a + n - 1" unfolding c_def m_def by (rule mult_div_mod_eq)
  have m: "0 \<le> m" "m < n" using assms by (simp_all add: m_def)
  have "c * n = a + n - 1 - m" using e by (simp add: mult.commute)
  moreover have "(c - 1) * n = c * n - n" by (simp add: algebra_simps)
  ultimately show "a \<le> ((a + n - 1) div n) * n" "((a + n - 1) div n - 1) * n < a"
    using m unfolding c_def by linarith+
qed

lemma ceil_div:
  assumes "1 \<le> (n::int)"
  shows "(a + n - 1) div n = \<lceil>real_of_int a / real_of_int n\<rceil>"
proof (rule sym, rule ceiling_unique)
  let ?c = "(a + n - 1) div n"
  have n: "0 < real_of_int n" using assms by simp
  have "real_of_int ((?c - 1) * n) < real_of_int a"
    using ceil_div_bounds(2)[OF assms, of a] by linarith
  then show "real_of_int ?c - 1 < real_of_int a / real_of_int n"
    using n by (simp add: pos_less_divide_eq)
  have "real_of_int a \<le> real_of_int (?c * n)"
    using ceil_div_bounds(1)[OF assms, of a] by linarith
  then show "real_of_int a / real_of_int n \<le> real_of_int ?c"
    using n by (simp add: pos_divide_le_eq)
qed




lemma to_int_eq: "to_int v = (v + 2147483648) mod 4294967296 - 2147483648"
  by (simp add: to_int_def sint_sbintrunc' signed_take_bit_eq_take_bit_shift take_bit_eq_mod)

lemma to_int_id: "- 2147483648 \<le> v \<Longrightarrow> v < 2147483648 \<Longrightarrow> to_int v = v"
  by (simp add: to_int_eq)

lemma c_rem_0_iff: "c_rem a QK_K = 0 \<longleftrightarrow> 256 dvd a"
proof (cases "0 \<le> a")
  case True
  then show ?thesis by (simp add: c_rem_nonneg QK_K_def dvd_eq_mod_eq_0)
next
  case False
  then have n: "0 \<le> - a" "a < 0" by simp_all
  have "c_div a 256 = - ((- a) div 256)" using n by (simp add: c_div_def)
  then have "c_rem a 256 = - ((- a) mod 256)"
    by (simp add: c_rem_def minus_mult_div_eq_mod[symmetric])
  then show ?thesis by (simp add: QK_K_def dvd_eq_mod_eq_0[symmetric])
qed

lemma to_int_dvd: "256 dvd to_int v \<longleftrightarrow> 256 dvd v"
proof -
  have d: "(256::int) dvd 4294967296" by simp
  have "256 dvd to_int v \<longleftrightarrow> 256 dvd (v + 2147483648) mod 4294967296"
    unfolding to_int_eq by (simp add: dvd_diff_left_iff)
  also have "\<dots> \<longleftrightarrow> 256 dvd (v + 2147483648)"
    using d by (simp add: dvd_mod_iff)
  also have "\<dots> \<longleftrightarrow> 256 dvd v" by (simp add: dvd_add_left_iff)
  finally show ?thesis .
qed

lemma c_rem_to_int: "c_rem ne00 QK_K = 0 \<Longrightarrow> c_rem (to_int ne00) QK_K = 0"
  by (simp add: c_rem_0_iff to_int_dvd)























section \<open>The entry point: dispatch and empty row slices\<close>

text \<open>
  Claim C6, as the code has it. The entry point first asserts that \<open>ne00\<close> is a multiple
  of \<open>QK_K\<close>, and only then looks at the tag. So for a tag outside the six supported ones
  and \<open>ne00\<close> a multiple of \<open>QK_K\<close> (all other arguments arbitrary), the call returns
  \<open>false\<close> and the store \<open>C\<close> it returns is the one it was given: nothing was written.
  (With \<^verbatim>\<open>NDEBUG\<close> the assertion is compiled out and the restriction on \<open>ne00\<close> falls
  away.)
\<close>

theorem iqk_mul_mat_unsupported:
  assumes "\<not> supported env typeA" "c_rem ne00 QK_K = 0"
  shows "iqk_mul_mat env ops Nx Ny ne00 typeA A B C stride_C ith n_th = Inr (False, C)"
  using assms by (simp add: iqk_mul_mat_def select_kernels_None)

theorem iqk_mul_mat_unsupported_witness:
  "\<not> supported env0 0 \<and> c_rem 256 QK_K = 0 \<and>
   iqk_mul_mat env0 (exact_ops (\<lambda>h. 0)) 1 1 256 0 A0 (\<lambda>a. []) (\<lambda>k. 0) 1 0 1 = Inr (False, \<lambda>k. 0)"
  using iqk_mul_mat_unsupported[of env0 0 256 "exact_ops (\<lambda>h. 0)" 1 1 A0 "\<lambda>a. []" "\<lambda>k. 0" 1 0 1]
  by (simp add: supported_def env0_def c_rem_simps)

text \<open>
  Claim C6 as stated (``for every value of the remaining arguments'') fails: with the
  unsupported tag 0 and \<open>ne00 = 1\<close> the assertion fails before the tag is looked at, and
  the call does not return \<open>false\<close>.
\<close>

theorem iqk_mul_mat_unsupported_aborts:
  "\<not> supported env0 0 \<and>
   iqk_mul_mat env0 (exact_ops (\<lambda>h. 0)) 1 1 1 0 A0 (\<lambda>a. []) (\<lambda>k. 0) 1 0 1 = Inl AssertionFailed \<and>
   iqk_mul_mat env0 (exact_ops (\<lambda>h. 0)) 1 1 1 0 A0 (\<lambda>a. []) (\<lambda>k. 0) 1 0 1 \<noteq> Inr (False, \<lambda>k. 0)"
  by (simp add: iqk_mul_mat_def supported_def env0_def c_rem_simps)

lemma row_slice_empty:
  assumes "1 \<le> n_th" "0 \<le> Nx" "Nx \<le> ith * ((Nx + n_th - 1) div n_th)"
    and "ith * ((Nx + n_th - 1) div n_th) - Nx \<le> 2147483648"
  shows "snd (row_slice Nx ith n_th) \<le> 0" "to_int (snd (row_slice Nx ith n_th)) \<le> 0"
proof -
  define c where "c = (Nx + n_th - 1) div n_th"
  have cd: "c_div (Nx + n_th - 1) n_th = c"
    unfolding c_def using assms by (intro c_div_nonneg) auto
  have c0: "0 \<le> c" unfolding c_def using assms by (simp add: pos_imp_zdiv_nonneg_iff)
  have s: "snd (row_slice Nx ith n_th) = (if ith * c + c > Nx then Nx - ith * c else c)"
    by (simp add: row_slice_def Let_def cd)
  show le: "snd (row_slice Nx ith n_th) \<le> 0"
    using assms(3) c0 unfolding s c_def[symmetric] by auto
  have "- 2147483648 \<le> snd (row_slice Nx ith n_th)"
    using assms(3,4) c0 unfolding s c_def[symmetric] by auto
  then have "to_int (snd (row_slice Nx ith n_th)) = snd (row_slice Nx ith n_th)"
    using le by (intro to_int_id) auto
  then show "to_int (snd (row_slice Nx ith n_th)) \<le> 0" using le by simp
qed

text \<open>
  Claim C10, as the code has it. Let \<open>typeA\<close> be supported and \<open>ne00\<close> a multiple of
  \<open>QK_K\<close> (the entry point asserts it), and let the slice of worker \<open>ith\<close> be empty:
  \<open>ith \<cdot> \<lceil>Nx / nth\<rceil> \<ge> Nx\<close>, with \<open>Nx \<ge> 0\<close> rows and \<open>nth \<ge> 1\<close> workers, the worker index being
  such that the row count \<open>Nx - ith \<cdot> \<lceil>Nx / nth\<rceil>\<close> is not below \<open>-2\<^sup>3\<^sup>1\<close> (as it is for
  every \<open>ith < nth\<close>), so that it survives the conversion to \<^verbatim>\<open>int\<close>. Then the \<^verbatim>\<open>nrc_x\<close>
  the entry point computes is zero or negative, and so is the row count the kernels
  receive; each of the selected kernels, called with this row count, runs its row loop
  zero times and returns the store unchanged, whatever its other arguments; and the
  entry point returns \<open>true\<close> with \<open>C\<close> unchanged.
\<close>

theorem iqk_mul_mat_empty_slice:
  assumes "supported env typeA" "c_rem ne00 QK_K = 0" "1 \<le> n_th" "0 \<le> Nx"
    and "Nx \<le> ith * \<lceil>real_of_int Nx / real_of_int n_th\<rceil>"
    and "ith * \<lceil>real_of_int Nx / real_of_int n_th\<rceil> - Nx \<le> 2147483648"
  shows "snd (row_slice Nx ith n_th) \<le> 0
       \<and> to_int (snd (row_slice Nx ith n_th)) \<le> 0
       \<and> (\<exists>mm. select_kernels env ops typeA A B = Some mm
            \<and> (\<forall>m s bs vx bx vy by C'.
                  mm m (to_int ne00) s bs vx bx vy by (to_int (snd (row_slice Nx ith n_th))) C' = Inr C'))
       \<and> iqk_mul_mat env ops Nx Ny ne00 typeA A B C stride_C ith n_th = Inr (True, C)"
proof -
  from select_kernels_Some[OF assms(1)] obtain mm where mm: "select_kernels env ops typeA A B = Some mm"
    by blast
  have e: "snd (row_slice Nx ith n_th) \<le> 0" "to_int (snd (row_slice Nx ith n_th)) \<le> 0"
    by (rule row_slice_empty; use assms ceil_div[OF assms(3), of Nx] in simp)+
  have k: "mm m (to_int ne00) s bs vx bx vy by (to_int (snd (row_slice Nx ith n_th))) t = Inr t"
    for m s bs vx bx vy "by" t
    by (rule select_kernels_no_rows[OF mm c_rem_to_int[OF assms(2)] e(2)])
  have "mul_mat_NxM (to_int ne00) s bs vx bx vy by (to_int (snd (row_slice Nx ith n_th))) (to_int Ny)
          (Some (mm 1)) (Some (mm 2)) (Some (mm 4)) (Some (mm 8)) C = Inr C" for s bs vx bx vy "by"
    by (rule mul_mat_NxM_id) (auto simp: k)
  then have "iqk_mul_mat env ops Nx Ny ne00 typeA A B C stride_C ith n_th = Inr (True, C)"
    using assms mm by (simp add: iqk_mul_mat_def Let_def)
  then show ?thesis using e mm k by simp
qed

theorem iqk_mul_mat_empty_slice_witness:
  "supported env0 12 \<and> c_rem 256 QK_K = 0 \<and> (1::int) \<le> 4 \<and> (0::int) \<le> 2
   \<and> (2::int) \<le> 3 * \<lceil>real_of_int 2 / real_of_int 4\<rceil>
   \<and> 3 * \<lceil>real_of_int 2 / real_of_int 4\<rceil> - 2 \<le> (2147483648::int)
   \<and> snd (row_slice 2 3 4) \<le> 0
   \<and> iqk_mul_mat env0 (exact_ops (\<lambda>h. 0)) 2 5 256 12 A0 (\<lambda>a. []) (\<lambda>k. 7) 2 3 4 = Inr (True, \<lambda>k. 7)"
proof -
  have ce: "\<lceil>real_of_int 2 / real_of_int 4\<rceil> = (1::int)" by (simp add: ceiling_eq_iff)
  have h: "supported env0 12" "c_rem 256 QK_K = 0" "(1::int) \<le> 4" "(0::int) \<le> 2"
    "(2::int) \<le> 3 * \<lceil>real_of_int 2 / real_of_int 4\<rceil>"
    "3 * \<lceil>real_of_int 2 / real_of_int 4\<rceil> - 2 \<le> (2147483648::int)"
    unfolding ce by (simp_all add: supported_def env0_def c_rem_simps)
  note t = iqk_mul_mat_empty_slice[OF h, of "exact_ops (\<lambda>h. 0)" A0 "\<lambda>a. []" 5 "\<lambda>k. 7" 2]
  from t have a: "snd (row_slice 2 3 4) \<le> 0" by (rule conjunct1)
  from t have b: "iqk_mul_mat env0 (exact_ops (\<lambda>h. 0)) 2 5 256 12 A0 (\<lambda>a. []) (\<lambda>k. 7) 2 3 4 = Inr (True, \<lambda>k. 7)"
    by (rule conjunct2[THEN conjunct2, THEN conjunct2])
  show ?thesis by (intro conjI h a b)
qed

text \<open>
  Claim C10 as stated fails in two ways. The entry point asserts that \<open>ne00\<close> is a
  multiple of \<open>QK_K\<close> before anything else: for the supported tag of Q4_K, the empty
  slice of worker 3 of 4 on 2 rows, and \<open>ne00 = 1\<close>, the call does not return \<open>true\<close>.
  And the row count is converted to \<^verbatim>\<open>int\<close>: for 3 rows, one worker and the worker index
  1431655766 the slice is empty, \<^verbatim>\<open>nrc_x\<close> is \<open>-4294967295\<close>, and the kernels receive the
  row count 1.
\<close>

theorem iqk_mul_mat_empty_slice_fails:
  "supported env0 12 \<and> (2::int) \<le> 3 * \<lceil>real_of_int 2 / real_of_int 4\<rceil>
   \<and> iqk_mul_mat env0 (exact_ops (\<lambda>h. 0)) 2 5 1 12 A0 (\<lambda>a. []) (\<lambda>k. 7) 2 3 4 = Inl AssertionFailed
   \<and> iqk_mul_mat env0 (exact_ops (\<lambda>h. 0)) 2 5 1 12 A0 (\<lambda>a. []) (\<lambda>k. 7) 2 3 4 \<noteq> Inr (True, \<lambda>k. 7)
   \<and> (3::int) \<le> 1431655766 * \<lceil>real_of_int 3 / real_of_int 1\<rceil>
   \<and> snd (row_slice 3 1431655766 1) = - 4294967295
   \<and> to_int (snd (row_slice 3 1431655766 1)) = 1"
proof -
  have ce: "\<lceil>real_of_int 2 / real_of_int 4\<rceil> = (1::int)" by (simp add: ceiling_eq_iff)
  have s: "snd (row_slice 3 1431655766 1) = - 4294967295"
    by (simp add: row_slice_def c_div_def Let_def)
  have t: "to_int (- 4294967295) = 1" by (simp add: to_int_eq)
  show ?thesis unfolding ce s t
    by (simp add: iqk_mul_mat_def supported_def env0_def c_rem_simps)
qed

section \<open>The row slices of the workers\<close>








section \<open>IQ4_XS does not read the block sums\<close>

lemma iq4_xs_sumi_cong:
  assumes "\<And>iy. iy < nrc_y \<Longrightarrow> q8_qs (q8 iy ! ibl) = q8_qs (q8' iy ! ibl)"
  shows "iq4_xs_sumi nrc_y x q8 ibl = iq4_xs_sumi nrc_y x q8' ibl"
  unfolding iq4_xs_sumi_def Let_def
  by (intro for_loop_cong) (simp add: load_quants_def assms)

lemma iq4_xs_superblock_cong:
  assumes "\<And>iy. iy < nrc_y \<Longrightarrow> q8_qs (q8 iy ! ibl) = q8_qs (q8' iy ! ibl)"
    and "\<And>iy. iy < nrc_y \<Longrightarrow> q8_d (q8 iy ! ibl) = q8_d (q8' iy ! ibl)"
  shows "iq4_xs_superblock ops nrc_y x q8 ibl acc = iq4_xs_superblock ops nrc_y x q8' ibl acc"
proof -
  have "iq4_xs_sumi nrc_y x q8 ibl = iq4_xs_sumi nrc_y x q8' ibl"
    by (rule iq4_xs_sumi_cong) (rule assms(1))
  then show ?thesis
    unfolding iq4_xs_superblock_def Let_def
    by (intro for_loop_cong) (simp add: q8_scale_def assms(2))
qed

text \<open>
  Claim C9. Let \<open>B\<close> and \<open>B'\<close> be two Q8_K operands whose super-blocks, as far as the
  kernel of width \<open>nrc_y\<close> reaches them (columns \<open>iy < nrc_y\<close>, super-blocks
  \<open>i < n / QK_K\<close>), agree on \<^verbatim>\<open>d\<close> and \<^verbatim>\<open>qs\<close>; their \<^verbatim>\<open>bsums\<close> may differ in any way.
  Then the IQ4_XS kernel returns the same result on both: the same store \<^verbatim>\<open>C\<close>, or the
  same failed assertion. This holds for every width, in particular 1, 2, 4 and 8, and
  for every floating-point arithmetic.
\<close>

theorem iq4_xs_ignores_bsums:
  assumes "\<forall>iy<nrc_y. \<forall>i<nat (c_div n QK_K).
             agree_d_qs (B (vy + int iy * by) ! i) (B' (vy + int iy * by) ! i)"
  shows "mul_mat_iq4_xs_q8_K_T ops nrc_y A B n s bs vx bx vy by nrc_x C
       = mul_mat_iq4_xs_q8_K_T ops nrc_y A B' n s bs vx bx vy by nrc_x C"
proof -
  have sb: "iq4_xs_superblock ops nrc_y x (Q8 B vy by) ibl acc
          = iq4_xs_superblock ops nrc_y x (Q8 B' vy by) ibl acc" if "ibl < nat (c_div n QK_K)" for x ibl acc
    by (rule iq4_xs_superblock_cong) (use assms that in \<open>simp_all add: Q8_def agree_d_qs_def\<close>)
  have "for_loop (nat (c_div n QK_K)) (\<lambda>ibl. iq4_xs_superblock ops nrc_y (x ! ibl) (Q8 B vy by) ibl) acc
      = for_loop (nat (c_div n QK_K)) (\<lambda>ibl. iq4_xs_superblock ops nrc_y (x ! ibl) (Q8 B' vy by) ibl) acc" for x acc
    by (rule for_loop_cong) (simp add: sb)
  then show ?thesis
    by (simp add: mul_mat_iq4_xs_q8_K_T_def Let_def)
qed

theorem iq4_xs_ignores_bsums_witness:
  "agree_d_qs \<lparr>q8_d = (1::real), q8_qs = replicate 256 1, q8_bsums = replicate 16 16\<rparr>
              \<lparr>q8_d = (1::real), q8_qs = replicate 256 1, q8_bsums = replicate 16 0\<rparr>
   \<and> replicate 16 (16::u16) \<noteq> replicate 16 0
   \<and> mul_mat_iq4_xs_q8_K_T (exact_ops (\<lambda>h. 1)) 1
         (\<lambda>a. [\<lparr>iq4_d = 0, iq4_scales_h = 0, iq4_scales_l = replicate 4 0, iq4_qs = replicate 128 0\<rparr>])
         (\<lambda>a. [\<lparr>q8_d = (1::real), q8_qs = replicate 256 1, q8_bsums = replicate 16 16\<rparr>])
         256 0 1 0 136 0 292 1 (\<lambda>k. 0)
     = mul_mat_iq4_xs_q8_K_T (exact_ops (\<lambda>h. 1)) 1
         (\<lambda>a. [\<lparr>iq4_d = 0, iq4_scales_h = 0, iq4_scales_l = replicate 4 0, iq4_qs = replicate 128 0\<rparr>])
         (\<lambda>a. [\<lparr>q8_d = (1::real), q8_qs = replicate 256 1, q8_bsums = replicate 16 0\<rparr>])
         256 0 1 0 136 0 292 1 (\<lambda>k. 0)"
proof -
  have n: "nat (c_div 256 QK_K) = 1" by (simp add: c_div_def QK_K_def)
  have a: "agree_d_qs \<lparr>q8_d = (1::real), q8_qs = replicate 256 1, q8_bsums = replicate 16 16\<rparr>
              \<lparr>q8_d = (1::real), q8_qs = replicate 256 1, q8_bsums = replicate 16 0\<rparr>"
    by (simp add: agree_d_qs_def)
  have h: "\<forall>iy<1. \<forall>i<nat (c_div 256 QK_K).
      agree_d_qs ((\<lambda>a. [\<lparr>q8_d = (1::real), q8_qs = replicate 256 1, q8_bsums = replicate 16 16\<rparr>]) (0 + int iy * 292) ! i)
                 ((\<lambda>a. [\<lparr>q8_d = (1::real), q8_qs = replicate 256 1, q8_bsums = replicate 16 0\<rparr>]) (0 + int iy * 292) ! i)"
    unfolding n using a by simp
  have d: "replicate 16 (16::u16) \<noteq> replicate 16 0" by (simp add: replicate_eq_replicate)
  show ?thesis by (intro conjI a d iq4_xs_ignores_bsums[OF h])
qed

section \<open>The sign trick of the IQ4_XS kernel\<close>

lemma mod_256_shift:
  fixes u :: int
  assumes "256 \<le> u" "u < 512"
  shows "u mod 256 = u - 256"
  by (rule int_mod_pos_eq[of _ _ 1]) (use assms in simp_all)

lemma sint_u8_cases: "sint (a :: u8) = (if uint a < 128 then uint a else uint a - 256)"
proof -
  have b: "0 \<le> uint a" "uint a < 256" using uint_bounded[of a] by simp_all
  have "sint a = (uint a + 128) mod 256 - 128"
    by (simp add: sint_uint signed_take_bit_eq_take_bit_shift take_bit_eq_mod)
  moreover have "(uint a + 128) mod 256 = uint a + 128" if "uint a < 128"
    using that b by (simp add: mod_pos_pos_trivial)
  moreover have "(uint a + 128) mod 256 = uint a + 128 - 256" if "\<not> uint a < 128"
    by (rule mod_256_shift) (use that b in simp_all)
  ultimately show ?thesis by simp
qed

lemma uint_neg_u8: "uint (- a :: u8) = (if uint a = 0 then 0 else 256 - uint a)"
proof -
  have b: "0 \<le> uint a" "uint a < 256" using uint_bounded[of a] by simp_all
  have e: "uint (- a) = (- uint a) mod 256" by (simp add: uint_word_arith_bintrs take_bit_eq_mod)
  show ?thesis
  proof (cases "uint a = 0")
    case True
    then show ?thesis using e by simp
  next
    case False
    have "(- uint a) mod 256 = 256 - uint a"
    proof (rule int_mod_pos_eq[of _ _ "- 1"])
      show "- uint a = 256 * - 1 + (256 - uint a)" by simp
      show "0 \<le> 256 - uint a" using b by simp
      show "256 - uint a < 256" using False b by linarith
    qed
    then show ?thesis using e False by simp
  qed
qed

lemma sint_neg_u8: "sint (- a :: u8) = (if sint a = - 128 then - 128 else - sint a)"
proof -
  have b: "0 \<le> uint a" "uint a < 256" using uint_bounded[of a] by simp_all
  have n: "uint a \<noteq> - 128" using uint_ge_0[of a] by linarith
  show ?thesis
    unfolding sint_u8_cases[of "- a"] sint_u8_cases[of a] uint_neg_u8
    using b n by (auto split: if_splits)
qed

lemma sint_u8_bounds: "- 128 \<le> sint (a :: u8)" "sint (a :: u8) \<le> 127"
proof -
  have b: "0 \<le> uint a" "uint a < 256" using uint_bounded[of a] by simp_all
  show "- 128 \<le> sint (a :: u8)" "sint (a :: u8) \<le> 127"
    unfolding sint_u8_cases using b
    by (cases "uint a < 128"; simp only: if_True if_False; linarith)+
qed

lemma sint_u8_zero: "sint (a :: u8) = 0 \<longleftrightarrow> a = 0"
proof
  have b: "0 \<le> uint a" "uint a < 256" using uint_bounded[of a] by simp_all
  assume "sint a = 0"
  then have "uint a = 0" unfolding sint_u8_cases using b
    by (cases "uint a < 128"; simp only: if_True if_False; linarith)
  then show "a = 0" by (simp add: uint_0_iff)
next
  assume "a = 0" then show "sint a = 0" by simp
qed

text \<open>One byte pair of the sign trick.\<close>
lemma sign_trick_byte:
  fixes a b :: u8
  assumes "sint b \<noteq> - 128"
  shows "uint (if sint a < 0 then - a else if a = 0 then 0 else a)
       * sint (if sint a < 0 then - b else if a = 0 then 0 else b) = sint a * sint b"
proof -
  have ba: "0 \<le> uint a" "uint a < 256" using uint_bounded[of a] by simp_all
  consider "sint a < 0" | "a = 0" | "0 < sint a"
    by (metis linorder_neqE_linordered_idom sint_u8_zero)
  then show ?thesis
  proof cases
    case 1
    then have "uint (- a) = - sint a" using ba by (auto simp: uint_neg_u8 sint_u8_cases split: if_splits)
    then show ?thesis using 1 assms by (simp add: sint_neg_u8)
  next
    case 2
    then show ?thesis by simp
  next
    case 3
    then have "uint a = sint a" "a \<noteq> 0" using ba by (auto simp: sint_u8_cases split: if_splits)
    then show ?thesis using 3 by simp
  qed
qed

lemma sint_sat16: "- 32768 \<le> v \<Longrightarrow> v \<le> 32767 \<Longrightarrow> sint (sat16 v) = v"
  by (simp add: sat16_def sint_sbintrunc' signed_take_bit_int_eq_self)

lemma w16_maddubs:
  "k < 16 \<Longrightarrow> w16 (mm256_maddubs_epi16 a b) k =
     sat16 (uint (a ! (2 * k)) * sint (b ! (2 * k)) + uint (a ! (2 * k + 1)) * sint (b ! (2 * k + 1)))"
  by (simp add: mm256_maddubs_epi16_def)

lemma nth_sign_epi8:
  "i < 32 \<Longrightarrow> mm256_sign_epi8 a b ! i =
     (if sint (b ! i) < 0 then - (a ! i) else if b ! i = 0 then 0 else a ! i)"
  by (simp add: mm256_sign_epi8_def)

lemma prod_u8_bound:
  fixes a b :: u8
  assumes "sint b \<noteq> - 128"
  shows "\<bar>sint a * sint b\<bar> \<le> 16256"
proof -
  have "\<bar>sint a\<bar> \<le> 128" "\<bar>sint b\<bar> \<le> 127"
    using sint_u8_bounds[of a] sint_u8_bounds[of b] assms by linarith+
  then have "\<bar>sint a\<bar> * \<bar>sint b\<bar> \<le> 128 * 127"
    by (intro mult_mono) simp_all
  then show ?thesis by (simp add: abs_mult)
qed

text \<open>
  Claim C4, as the code has it. Let \<open>x\<close> and \<open>y\<close> be 32-lane vectors of signed bytes, \<open>x\<close>
  arbitrary and no lane of \<open>y\<close> equal to \<open>-128\<close>. Then every 16-bit lane \<open>k\<close> of
  \<^verbatim>\<open>mul_signed(x, y)\<close> is exactly the sum of the two signed products
  \<open>x\<^sub>2\<^sub>k \<cdot> y\<^sub>2\<^sub>k + x\<^sub>2\<^sub>k\<^sub>+\<^sub>1 \<cdot> y\<^sub>2\<^sub>k\<^sub>+\<^sub>1\<close>: the sign transfer is exact and the multiply-add does not
  saturate.
\<close>

theorem mul_signed_exact:
  assumes "length x = 32" "length y = 32" "\<forall>i<32. sint (y ! i) \<noteq> - 128" "k < 16"
  shows "sint (w16 (mul_signed x y) k)
       = sint (x ! (2 * k)) * sint (y ! (2 * k)) + sint (x ! (2 * k + 1)) * sint (y ! (2 * k + 1))"
proof -
  have i: "2 * k < 32" "2 * k + 1 < 32" using assms(4) by simp_all
  have y: "sint (y ! (2 * k)) \<noteq> - 128" "sint (y ! (2 * k + 1)) \<noteq> - 128"
    using assms(3) i by blast+
  let ?p = "sint (x ! (2 * k)) * sint (y ! (2 * k))"
  let ?q = "sint (x ! (2 * k + 1)) * sint (y ! (2 * k + 1))"
  have b: "\<bar>?p\<bar> \<le> 16256" "\<bar>?q\<bar> \<le> 16256"
    using prod_u8_bound[OF y(1)] prod_u8_bound[OF y(2)] by simp_all
  have "w16 (mul_signed x y) k = sat16 (?p + ?q)"
    unfolding mul_signed_def Let_def w16_maddubs[OF assms(4)] nth_sign_epi8[OF i(1)] nth_sign_epi8[OF i(2)]
    by (simp only: sign_trick_byte[OF y(1)] sign_trick_byte[OF y(2)])
  moreover have "sint (sat16 (?p + ?q)) = ?p + ?q"
    by (rule sint_sat16) (use b in linarith)+
  ultimately show ?thesis by simp
qed

theorem mul_signed_exact_witness:
  "length (replicate 32 (- 5 :: u8)) = 32 \<and> length (replicate 32 (7 :: u8)) = 32
   \<and> (0::nat) < 16
   \<and> sint (w16 (mul_signed (replicate 32 (- 5)) (replicate 32 7)) 0) = - 70"
proof -
  have h: "\<forall>i<32. sint (replicate 32 (7 :: u8) ! i) \<noteq> - 128" by simp
  have "sint (w16 (mul_signed (replicate 32 (- 5)) (replicate 32 7)) 0)
      = sint (replicate 32 (- 5 :: u8) ! (2 * 0)) * sint (replicate 32 (7 :: u8) ! (2 * 0))
      + sint (replicate 32 (- 5 :: u8) ! (2 * 0 + 1)) * sint (replicate 32 (7 :: u8) ! (2 * 0 + 1))"
    by (rule mul_signed_exact) (use h in simp_all)
  then show ?thesis by simp
qed

text \<open>
  Claim C4 as stated (``for any pair of signed 8-bit vectors'') fails where a lane of
  \<open>y\<close> is \<open>-128\<close> under a negative lane of \<open>x\<close>: negating \<open>-128\<close> wraps around to
  \<open>-128\<close>. With all lanes of \<open>x\<close> equal to \<open>-1\<close> and all lanes of \<open>y\<close> equal to \<open>-128\<close>, lane 0
  of the result is \<open>-256\<close>, and the sum of the signed products is \<open>256\<close>.
\<close>

theorem mul_signed_not_exact:
  "sint (w16 (mul_signed (replicate 32 (- 1)) (replicate 32 (- 128))) 0) = - 256
   \<and> sint (replicate 32 (- 1 :: u8) ! 0) * sint (replicate 32 (- 128 :: u8) ! 0)
     + sint (replicate 32 (- 1 :: u8) ! 1) * sint (replicate 32 (- 128 :: u8) ! 1) = 256"
  by (simp add: mul_signed_def w16_maddubs nth_sign_epi8 sat16_def)

section \<open>Unpacking the scales of Q4_K and Q5_K\<close>

lemma make_q4_scales_eq:
  "make_q4_scales [b0, b1, b2, b3, b4, b5, b6, b7, b8, b9, b10, b11] =
    [le32 b0 b1 b2 b3 AND 0x3F3F3F3F,
     (le32 b8 b9 b10 b11 AND 0x0F0F0F0F) OR (drop_bit 2 (le32 b0 b1 b2 b3) AND 0x30303030),
     le32 b4 b5 b6 b7 AND 0x3F3F3F3F,
     (drop_bit 4 (le32 b8 b9 b10 b11) AND 0x0F0F0F0F) OR (drop_bit 2 (le32 b4 b5 b6 b7) AND 0x30303030)]"
proof -
  let ?s = "[b0, b1, b2, b3, b4, b5, b6, b7, b8, b9, b10, b11]"
  have "u32_of_u16s ?s 0 = le32 b0 b1 b2 b3" using u32_of_u16s_le32[of ?s 0] by simp
  moreover have "u32_of_u16s ?s 2 = le32 b4 b5 b6 b7" using u32_of_u16s_le32[of ?s 1] by simp
  moreover have "u32_of_u16s ?s 4 = le32 b8 b9 b10 b11" using u32_of_u16s_le32[of ?s 2] by simp
  ultimately show ?thesis by (simp add: make_q4_scales_def Let_def)
qed

lemma and_mask_6bit:
  fixes a b :: u32
  shows "(a AND 0x3F3F3F3F) AND 0x3F3F3F3F = a AND 0x3F3F3F3F"
    "((a AND 0x0F0F0F0F) OR (b AND 0x30303030)) AND 0x3F3F3F3F = (a AND 0x0F0F0F0F) OR (b AND 0x30303030)"
proof -
  show "(a AND 0x3F3F3F3F) AND 0x3F3F3F3F = a AND 0x3F3F3F3F" by (simp add: and.assoc)
  have "(0x0F0F0F0F :: u32) AND 0x3F3F3F3F = 0x0F0F0F0F" "(0x30303030 :: u32) AND 0x3F3F3F3F = 0x30303030"
    by simp_all
  then show "((a AND 0x0F0F0F0F) OR (b AND 0x30303030)) AND 0x3F3F3F3F = (a AND 0x0F0F0F0F) OR (b AND 0x30303030)"
    by (simp add: bit.conj_disj_distrib2 and.assoc)
qed

lemma nth_u32_bytes: "m < 4 \<Longrightarrow> u32_bytes w ! m = ucast (drop_bit (8 * m) w)"
proof -
  assume "m < 4"
  then consider "m = 0" | "m = 1" | "m = 2" | "m = 3" by linarith
  then show ?thesis by cases (simp_all add: u32_bytes_def)
qed

lemma make_q4_scales_list:
  "[make_q4_scales s ! 0, make_q4_scales s ! 1, make_q4_scales s ! 2, make_q4_scales s ! 3] = make_q4_scales s"
  by (simp add: make_q4_scales_def Let_def)

lemma length_make_q4_scales [simp]: "length (make_q4_scales s) = 4"
  by (simp add: make_q4_scales_def Let_def)

lemma w16_q4_K_mins_and_scales:
  assumes "k < 16"
  shows "w16 (q4_K_mins_and_scales s) k = ucast (u32_bytes (make_q4_scales s ! (k div 4)) ! (k mod 4))"
proof -
  have d: "k div 4 < 4" "k mod 4 < 4" using assms by simp_all
  have "w16 (q4_K_mins_and_scales s) k
      = ucast (mm_set_epi32 (make_q4_scales s ! 3) (make_q4_scales s ! 2) (make_q4_scales s ! 1) (make_q4_scales s ! 0) ! k)"
    using assms by (simp add: q4_K_mins_and_scales_def Let_def mm256_cvtepu8_epi16_def)
  also have "\<dots> = ucast (ucast (drop_bit (8 * (k mod 4)) (make_q4_scales s ! (k div 4))) :: u8)"
  proof -
    have "k < 4 * 4" using assms by simp
    then show ?thesis
      unfolding mm_set_epi32_def by (simp only: nth_of_epi32 make_q4_scales_list)
  qed
  finally show ?thesis by (simp add: nth_u32_bytes d)
qed

lemma w16_q4_K_sc128:
  "k < 8 \<Longrightarrow> w16 (q4_K_sc128 s) k = ucast (u32_bytes (make_q4_scales s ! (k div 4)) ! (k mod 4))"
  by (simp add: q4_K_sc128_def w16_extracti128 w16_q4_K_mins_and_scales)

lemma w16_q4_K_mins:
  "k < 8 \<Longrightarrow> w16 (q4_K_mins s) k = ucast (u32_bytes (make_q4_scales s ! (2 + k div 4)) ! (k mod 4))"
proof -
  assume k: "k < 8"
  have "(8 + k) div 4 = 2 + k div 4" "(8 + k) mod 4 = k mod 4" by presburger+
  then show ?thesis using k
    by (simp add: q4_K_mins_def w16_extracti128 w16_q4_K_mins_and_scales)
qed

lemma sc128_lanes:
  "map (w16 (q4_K_sc128 s)) [0..<8]
     = map ucast (u32_bytes (make_q4_scales s ! 0) @ u32_bytes (make_q4_scales s ! 1))"
  by (simp add: upt_8 w16_q4_K_sc128 u32_bytes_def)

lemma mins_lanes:
  "map (w16 (q4_K_mins s)) [0..<8]
     = map ucast (u32_bytes (make_q4_scales s ! 2) @ u32_bytes (make_q4_scales s ! 3))"
  by (simp add: upt_8 w16_q4_K_mins u32_bytes_def)

text \<open>
  Claim C3, as the code has it. For the twelve bytes \<open>b\<^sub>0 \<dots> b\<^sub>1\<^sub>1\<close> of \<^verbatim>\<open>scales\<close>, read as the
  little-endian words \<open>a\<^sub>0, a\<^sub>1, a\<^sub>2\<close>, \<^verbatim>\<open>make_q4_scales\<close> produces exactly
  \<open>o\<^sub>0 = a\<^sub>0 & 0x3F3F3F3F\<close>, \<open>o\<^sub>1 = (a\<^sub>2 & 0x0F0F0F0F) | ((a\<^sub>0 >> 2) & 0x30303030)\<close>,
  \<open>o\<^sub>2 = a\<^sub>1 & 0x3F3F3F3F\<close>, \<open>o\<^sub>3 = ((a\<^sub>2 >> 4) & 0x0F0F0F0F) | ((a\<^sub>1 >> 2) & 0x30303030)\<close>;
  every byte of every output is a 6-bit value; and in the kernels the eight lanes of
  \<^verbatim>\<open>sc128\<close>, the sub-block scales that multiply the quant products, are the bytes of
  \<open>o\<^sub>0\<close> and \<open>o\<^sub>1\<close>, while the eight lanes of \<^verbatim>\<open>mins\<close>, which multiply the block sums, are
  the bytes of \<open>o\<^sub>2\<close> and \<open>o\<^sub>3\<close>.
\<close>

theorem make_q4_scales_unpacks:
  "make_q4_scales [b0, b1, b2, b3, b4, b5, b6, b7, b8, b9, b10, b11] =
    [le32 b0 b1 b2 b3 AND 0x3F3F3F3F,
     (le32 b8 b9 b10 b11 AND 0x0F0F0F0F) OR (drop_bit 2 (le32 b0 b1 b2 b3) AND 0x30303030),
     le32 b4 b5 b6 b7 AND 0x3F3F3F3F,
     (drop_bit 4 (le32 b8 b9 b10 b11) AND 0x0F0F0F0F) OR (drop_bit 2 (le32 b4 b5 b6 b7) AND 0x30303030)]
   \<and> map (\<lambda>w. w AND 0x3F3F3F3F) (make_q4_scales [b0, b1, b2, b3, b4, b5, b6, b7, b8, b9, b10, b11])
       = make_q4_scales [b0, b1, b2, b3, b4, b5, b6, b7, b8, b9, b10, b11]
   \<and> map (w16 (q4_K_sc128 [b0, b1, b2, b3, b4, b5, b6, b7, b8, b9, b10, b11])) [0..<8]
       = map ucast (u32_bytes (make_q4_scales [b0, b1, b2, b3, b4, b5, b6, b7, b8, b9, b10, b11] ! 0)
                  @ u32_bytes (make_q4_scales [b0, b1, b2, b3, b4, b5, b6, b7, b8, b9, b10, b11] ! 1))
   \<and> map (w16 (q4_K_mins [b0, b1, b2, b3, b4, b5, b6, b7, b8, b9, b10, b11])) [0..<8]
       = map ucast (u32_bytes (make_q4_scales [b0, b1, b2, b3, b4, b5, b6, b7, b8, b9, b10, b11] ! 2)
                  @ u32_bytes (make_q4_scales [b0, b1, b2, b3, b4, b5, b6, b7, b8, b9, b10, b11] ! 3))"
proof (intro conjI)
  show "map (\<lambda>w. w AND 0x3F3F3F3F) (make_q4_scales [b0, b1, b2, b3, b4, b5, b6, b7, b8, b9, b10, b11])
       = make_q4_scales [b0, b1, b2, b3, b4, b5, b6, b7, b8, b9, b10, b11]"
    unfolding make_q4_scales_eq by (simp only: list.map and_mask_6bit)
qed (rule make_q4_scales_eq sc128_lanes mins_lanes)+

text \<open>
  Claim C3 as stated has the scales in \<open>o\<^sub>0\<close> and \<open>o\<^sub>2\<close> and the mins in \<open>o\<^sub>1\<close> and \<open>o\<^sub>3\<close>. For the
  bytes \<open>1, 0, 0, 0, 2, 0, \<dots>, 0\<close> the outputs are \<open>o\<^sub>0 = 1\<close>, \<open>o\<^sub>2 = 2\<close>, \<open>o\<^sub>1 = o\<^sub>3 = 0\<close>; the
  scale lanes of the kernel are \<open>1, 0, \<dots>, 0\<close>, not the bytes \<open>1, 0, 0, 0, 2, 0, 0, 0\<close> of \<open>o\<^sub>0\<close>
  and \<open>o\<^sub>2\<close>, and the byte \<open>2\<close> of \<open>o\<^sub>2\<close> is lane 0 of the mins.
\<close>

theorem scales_not_in_o0_o2:
  "map (w16 (q4_K_sc128 [1, 0, 0, 0, 2, 0, 0, 0, 0, 0, 0, 0])) [0..<8] = [1, 0, 0, 0, 0, 0, 0, 0]
   \<and> map ucast (u32_bytes (make_q4_scales [1, 0, 0, 0, 2, 0, 0, 0, 0, 0, 0, 0] ! 0)
              @ u32_bytes (make_q4_scales [1, 0, 0, 0, 2, 0, 0, 0, 0, 0, 0, 0] ! 2))
       = [1, 0, 0, 0, 2, 0, 0, 0 :: u16]
   \<and> map (w16 (q4_K_sc128 [1, 0, 0, 0, 2, 0, 0, 0, 0, 0, 0, 0])) [0..<8]
       \<noteq> map ucast (u32_bytes (make_q4_scales [1, 0, 0, 0, 2, 0, 0, 0, 0, 0, 0, 0] ! 0)
              @ u32_bytes (make_q4_scales [1, 0, 0, 0, 2, 0, 0, 0, 0, 0, 0, 0] ! 2))
   \<and> map (w16 (q4_K_mins [1, 0, 0, 0, 2, 0, 0, 0, 0, 0, 0, 0])) [0..<8] = [2, 0, 0, 0, 0, 0, 0, 0]"
  by code_simp

end
